theory Spec2Isabelle
  imports Complex_Main
begin

section \<open>Data model\<close>

text \<open>
  The animation module (src/unnamed/part_002) and the event module
  (src/unnamed/part_000, src/js/interaction/events.js) keep their state in
  module-level variables. The embedding passes that state explicitly.
  JavaScript numbers are modelled as real numbers: rounding, infinities and NaN
  of IEEE doubles are outside the model.
\<close>

text \<open>The three values of \<open>animationState\<close> (src/js/state.js, line 6).\<close>

datatype anim_state = IDLE | EXPLODING | RETURNING

text \<open>three.js \<open>Vector3\<close> / \<open>Euler\<close> / the plain \<open>{x, y, z}\<close> object of \<open>rotSpeed\<close>.\<close>

record vec3 =
  vx :: real
  vy :: real
  vz :: real

text \<open>three.js \<open>Vector2\<close>, the mouse vector returned by \<open>getMouse\<close>.\<close>

record vec2 =
  mx :: real
  my :: real

text \<open>
  The object built by \<open>createParticleUserData\<close> (src/js/particles/particles.js,
  lines 27-40). \<open>originalPos\<close> is a clone of the sampled position and every
  vector is allocated per particle, so no two particles share a vector and a
  list of values represents the particle arrays without loss.
\<close>

record userData =
  originalPos :: vec3
  explosionTarget :: vec3
  rotSpeed :: vec3
  individualParallaxShift :: vec3
  baseParallaxSensitivity :: real

text \<open>
  A mesh of the particle arrays. \<open>userData = None\<close> stands for a malformed
  record: a mesh whose \<open>userData\<close> lacks the fields set by
  \<open>createParticleUserData\<close> (three.js initialises \<open>userData\<close> to the empty
  object), so that \<open>p.userData.rotSpeed\<close> is undefined.
\<close>

record particle =
  position :: vec3
  rotation :: vec3
  userData :: "userData option"

text \<open>The fields of \<open>CONFIG\<close> read by the two modules (src/v4/config.js).\<close>

record config =
  uncapFPS :: bool
  showFPS :: bool
  animationSpeed :: real
  idleFloatSpeed :: real
  idleFloatAmount :: real
  explodedParallaxEnabled :: bool
  explodedParallaxStrength :: real
  holdDuration :: real
  reassembleOnClick :: bool

text \<open>
  The injected callbacks of both modules. A boolean tells whether the module
  variable holds a function (\<open>True\<close>) or is still \<open>null\<close>/\<open>undefined\<close>
  (\<open>False\<close>). \<open>getMouseFn\<close> is a getter without effect: \<open>Some m\<close> is a
  configured getter that returns the mouse vector \<open>m\<close>.
  The event module's \<open>getAnimationState\<close> and \<open>setAnimationState\<close> callbacks,
  when configured, are the functions of the same name exported by the
  animation module.
\<close>

record callbacks =
  updateFpsFn :: bool
  updateParallaxTargetsFn :: bool
  applyParallaxToGroupFn :: bool
  animateShowcaseBoxFn :: bool
  renderShowcaseFn :: bool
  getMouseFn :: "vec2 option"
  getLastMouseMoveTimeFn :: bool
  updateCameraFn :: bool
  onExplosion :: bool
  onReturn :: bool
  getAnimationState_cb :: bool
  setAnimationState_cb :: bool

datatype error = TypeError

section \<open>Motion integrator\<close>

text \<open>three.js \<open>Vector3.distanceTo\<close>: the square root of \<open>distanceToSquared\<close>.\<close>

definition distanceToSquared :: "vec3 \<Rightarrow> vec3 \<Rightarrow> real" where
  "distanceToSquared a b =
     (vx a - vx b) * (vx a - vx b) + (vy a - vy b) * (vy a - vy b)
       + (vz a - vz b) * (vz a - vz b)"

definition distanceTo :: "vec3 \<Rightarrow> vec3 \<Rightarrow> real" where
  "distanceTo a b = sqrt (distanceToSquared a b)"

text \<open>three.js \<open>Vector3.lerp(v, alpha)\<close>: \<open>this.c += (v.c - this.c) * alpha\<close> on each axis.\<close>

definition lerp :: "vec3 \<Rightarrow> vec3 \<Rightarrow> real \<Rightarrow> vec3" where
  "lerp a v alpha =
     \<lparr>vx = vx a + (vx v - vx a) * alpha,
      vy = vy a + (vy v - vy a) * alpha,
      vz = vz a + (vz v - vz a) * alpha\<rparr>"

text \<open>three.js \<open>Vector3.multiplyScalar\<close>.\<close>

definition multiplyScalar :: "vec3 \<Rightarrow> real \<Rightarrow> vec3" where
  "multiplyScalar a k = \<lparr>vx = vx a * k, vy = vy a * k, vz = vz a * k\<rparr>"

text \<open>
  \<open>animateSingleParticle\<close> (part_002, lines 134-188) on records that are
  complete or have none of the \<open>userData\<close> fields. The module variable
  \<open>animationState\<close> is read only, so it is a parameter. The first statement
  dereferences \<open>p.userData.rotSpeed\<close>; on a record without the fields that
  raises a \<open>TypeError\<close> before anything is written. Records that lack only
  some of the fields are the subject of \<open>animateSingleParticle_js\<close> below.
\<close>

definition animateSingleParticle ::
  "config \<Rightarrow> callbacks \<Rightarrow> anim_state \<Rightarrow> particle \<Rightarrow> nat \<Rightarrow> real \<Rightarrow> error + particle" where
  "animateSingleParticle CONFIG cb animationState p index time =
     (case userData p of
        None \<Rightarrow> Inl TypeError
      | Some ud \<Rightarrow>
          let rot = \<lparr>vx = vx (rotation p) + vx (rotSpeed ud),
                     vy = vy (rotation p) + vy (rotSpeed ud),
                     vz = vz (rotation p) + vz (rotSpeed ud)\<rparr>
          in
          if animationState = IDLE then
            let floatOffset =
                  sin (time * idleFloatSpeed CONFIG + real index * 0.1) * idleFloatAmount CONFIG
            in Inr (p\<lparr>rotation := rot,
                      position := \<lparr>vx = vx (originalPos ud),
                                   vy = vy (originalPos ud) + floatOffset,
                                   vz = vz (originalPos ud)\<rparr>\<rparr>)
          else if animationState = EXPLODING then
            let mouse = (case getMouseFn cb of Some m \<Rightarrow> m | None \<Rightarrow> \<lparr>mx = 0, my = 0\<rparr>);
                shift0 = individualParallaxShift ud;
                shift =
                  (if explodedParallaxEnabled CONFIG then
                     let parallaxX = mx mouse * explodedParallaxStrength CONFIG
                                       * baseParallaxSensitivity ud;
                         parallaxY = my mouse * explodedParallaxStrength CONFIG
                                       * baseParallaxSensitivity ud
                     in shift0\<lparr>vx := vx shift0 + (parallaxX - vx shift0) * 0.08,
                               vy := vy shift0 + (parallaxY - vy shift0) * 0.08\<rparr>
                   else shift0\<lparr>vx := vx shift0 * 0.95, vy := vy shift0 * 0.95\<rparr>);
                targetX = vx (explosionTarget ud) + vx shift;
                targetY = vy (explosionTarget ud) + vy shift;
                targetZ = vz (explosionTarget ud);
                pos = position p;
                lerped = \<lparr>vx = vx pos + (targetX - vx pos) * animationSpeed CONFIG,
                          vy = vy pos + (targetY - vy pos) * animationSpeed CONFIG,
                          vz = vz pos + (targetZ - vz pos) * animationSpeed CONFIG\<rparr>;
                floatOffset =
                  sin (time * idleFloatSpeed CONFIG * 2 + real index * 0.1) * idleFloatAmount CONFIG
            in Inr (p\<lparr>rotation := \<lparr>vx = vx rot + 0.02, vy = vy rot + 0.01, vz = vz rot\<rparr>,
                      position := \<lparr>vx = vx lerped + sin (time * 0.001 + real index) * 0.01,
                                   vy = vy lerped + floatOffset,
                                   vz = vz lerped + cos (time * 0.001 + real index) * 0.01\<rparr>,
                      userData := Some (ud\<lparr>individualParallaxShift := shift\<rparr>)\<rparr>)
          else if animationState = RETURNING then
            Inr (p\<lparr>rotation := rot,
                   position := lerp (position p) (originalPos ud) (animationSpeed CONFIG),
                   userData := Some (ud\<lparr>individualParallaxShift :=
                                 multiplyScalar (individualParallaxShift ud) 0.95\<rparr>)\<rparr>)
          else Inr (p\<lparr>rotation := rot\<rparr>))"

section \<open>The integrator on records that lack fields\<close>

text \<open>
  A \<open>userData\<close> object in which each of the four vectors may be missing
  (\<open>None\<close> is \<open>undefined\<close>), and a mesh whose \<open>userData\<close> itself may be
  missing. \<open>position\<close> and \<open>rotation\<close> are set by the three.js constructor on
  every mesh.
\<close>

record jsUserData =
  js_originalPos :: "vec3 option"
  js_explosionTarget :: "vec3 option"
  js_rotSpeed :: "vec3 option"
  js_individualParallaxShift :: "vec3 option"
  js_baseParallaxSensitivity :: real

record jsParticle =
  js_position :: vec3
  js_rotation :: vec3
  js_userData :: "jsUserData option"

text \<open>
  \<open>animateSingleParticle\<close> (part_002, lines 134-188) on such records, statement
  by statement. Reading a property of \<open>undefined\<close> raises a \<open>TypeError\<close>;
  what was written before stays written, so the error carries the record as
  the update left it: nothing is written when \<open>rotSpeed\<close> is missing (line
  136); the rotation is written when the fault is at line 143, 154/157 or 183
  (\<open>Vector3.lerp\<close> reads \<open>v.x\<close> before it writes); the parallax shift too when
  it is at line 162; the position too when it is at line 186.
\<close>

definition animateSingleParticle_js ::
  "config \<Rightarrow> callbacks \<Rightarrow> anim_state \<Rightarrow> jsParticle \<Rightarrow> nat \<Rightarrow> real
     \<Rightarrow> (error \<times> jsParticle) + jsParticle" where
  "animateSingleParticle_js CONFIG cb animationState p index time =
     (case js_userData p of
        None \<Rightarrow> Inl (TypeError, p)
      | Some ud \<Rightarrow>
     (case js_rotSpeed ud of
        None \<Rightarrow> Inl (TypeError, p)
      | Some speed \<Rightarrow>
          let p1 = p\<lparr>js_rotation := \<lparr>vx = vx (js_rotation p) + vx speed,
                                      vy = vy (js_rotation p) + vy speed,
                                      vz = vz (js_rotation p) + vz speed\<rparr>\<rparr>
          in
          if animationState = IDLE then
            let floatOffset =
                  sin (time * idleFloatSpeed CONFIG + real index * 0.1) * idleFloatAmount CONFIG
            in (case js_originalPos ud of
                  None \<Rightarrow> Inl (TypeError, p1)
                | Some orig \<Rightarrow>
                    Inr (p1\<lparr>js_position := \<lparr>vx = vx orig, vy = vy orig + floatOffset,
                                             vz = vz orig\<rparr>\<rparr>))
          else if animationState = EXPLODING then
            let mouse = (case getMouseFn cb of Some m \<Rightarrow> m | None \<Rightarrow> \<lparr>mx = 0, my = 0\<rparr>)
            in (case js_individualParallaxShift ud of
                  None \<Rightarrow> Inl (TypeError, p1)
                | Some shift0 \<Rightarrow>
                    let shift =
                          (if explodedParallaxEnabled CONFIG then
                             let parallaxX = mx mouse * explodedParallaxStrength CONFIG
                                               * js_baseParallaxSensitivity ud;
                                 parallaxY = my mouse * explodedParallaxStrength CONFIG
                                               * js_baseParallaxSensitivity ud
                             in shift0\<lparr>vx := vx shift0 + (parallaxX - vx shift0) * 0.08,
                                       vy := vy shift0 + (parallaxY - vy shift0) * 0.08\<rparr>
                           else shift0\<lparr>vx := vx shift0 * 0.95, vy := vy shift0 * 0.95\<rparr>);
                        p2 = p1\<lparr>js_userData :=
                                   Some (ud\<lparr>js_individualParallaxShift := Some shift\<rparr>)\<rparr>
                    in (case js_explosionTarget ud of
                          None \<Rightarrow> Inl (TypeError, p2)
                        | Some target \<Rightarrow>
                            let targetX = vx target + vx shift;
                                targetY = vy target + vy shift;
                                targetZ = vz target;
                                pos = js_position p;
                                lerped =
                                  \<lparr>vx = vx pos + (targetX - vx pos) * animationSpeed CONFIG,
                                   vy = vy pos + (targetY - vy pos) * animationSpeed CONFIG,
                                   vz = vz pos + (targetZ - vz pos) * animationSpeed CONFIG\<rparr>;
                                floatOffset =
                                  sin (time * idleFloatSpeed CONFIG * 2 + real index * 0.1)
                                    * idleFloatAmount CONFIG
                            in Inr (p2\<lparr>js_rotation :=
                                          \<lparr>vx = vx (js_rotation p1) + 0.02,
                                           vy = vy (js_rotation p1) + 0.01,
                                           vz = vz (js_rotation p1)\<rparr>,
                                        js_position :=
                                          \<lparr>vx = vx lerped + sin (time * 0.001 + real index) * 0.01,
                                           vy = vy lerped + floatOffset,
                                           vz = vz lerped
                                                  + cos (time * 0.001 + real index) * 0.01\<rparr>\<rparr>)))
          else if animationState = RETURNING then
            (case js_originalPos ud of
               None \<Rightarrow> Inl (TypeError, p1)
             | Some orig \<Rightarrow>
                 let p2 = p1\<lparr>js_position := lerp (js_position p) orig (animationSpeed CONFIG)\<rparr>
                 in (case js_individualParallaxShift ud of
                       None \<Rightarrow> Inl (TypeError, p2)
                     | Some shift0 \<Rightarrow>
                         Inr (p2\<lparr>js_userData :=
                                     Some (ud\<lparr>js_individualParallaxShift :=
                                                  Some (multiplyScalar shift0 0.95)\<rparr>)\<rparr>)))
          else Inr p1))"

text \<open>
  A \<open>forEach\<close> loop of \<open>animateParticles\<close> (part_002, lines 108-117 and
  120-129) over such records, and \<open>animateParticles\<close> (lines 104-132) with the
  two arrays and \<open>animationState\<close> as parameters.
\<close>

fun forEachParticle_js ::
  "config \<Rightarrow> callbacks \<Rightarrow> anim_state \<Rightarrow> real \<Rightarrow> nat \<Rightarrow> jsParticle list \<Rightarrow> bool
     \<Rightarrow> jsParticle list \<times> (error + bool)" where
  "forEachParticle_js CONFIG cb st time index [] allReturned = ([], Inr allReturned)"
| "forEachParticle_js CONFIG cb st time index (p # ps) allReturned =
     (case animateSingleParticle_js CONFIG cb st p index time of
        Inl (e, p1) \<Rightarrow> (p1 # ps, Inl e)
      | Inr p' \<Rightarrow>
          if st = RETURNING then
            (case js_userData p' of
               None \<Rightarrow> (p' # ps, Inl TypeError)
             | Some ud \<Rightarrow>
            (case js_originalPos ud of
               None \<Rightarrow> (p' # ps, Inl TypeError)
             | Some orig \<Rightarrow>
                 let dist = distanceTo (js_position p') orig;
                     r = forEachParticle_js CONFIG cb st time (Suc index) ps
                           (if dist > 0.1 then False else allReturned)
                 in (p' # fst r, snd r)))
          else
            (let r = forEachParticle_js CONFIG cb st time (Suc index) ps allReturned
             in (p' # fst r, snd r)))"

definition animateParticles_js ::
  "config \<Rightarrow> callbacks \<Rightarrow> anim_state \<Rightarrow> real \<Rightarrow> jsParticle list \<Rightarrow> jsParticle list
     \<Rightarrow> (jsParticle list \<times> jsParticle list) \<times> (error + bool)" where
  "animateParticles_js CONFIG cb st time ps tps =
     (let r1 = forEachParticle_js CONFIG cb st time 0 ps True
      in case snd r1 of
           Inl e \<Rightarrow> ((fst r1, tps), Inl e)
         | Inr allReturned \<Rightarrow>
             let r2 = forEachParticle_js CONFIG cb st time 0 tps allReturned
             in ((fst r1, fst r2), snd r2))"

section \<open>Application state, host timers and callback trace\<close>

text \<open>
  What the host has been asked to run later: the closure passed to
  \<open>setTimeout\<close> by \<open>triggerExplosion\<close>, or \<open>animate\<close> itself.
\<close>

datatype scheduled = ReturnCallback | AnimateCallback

text \<open>
  Invocations of injected callbacks (and of \<open>event.preventDefault\<close>), in the
  order they happen. \<open>RenderShowcase\<close> carries the particle arrays of the scene
  it is handed, as they are at the moment of the call. The callbacks are
  external collaborators; their own effects are outside the model, and they do
  not write the state of the two modules.
\<close>

datatype call =
    UpdateFps bool
  | UpdateParallaxTargets anim_state
  | ApplyParallaxToGroup
  | AnimateShowcaseBox vec2
  | UpdateCamera anim_state
  | RenderShowcase "particle list" "particle list"
  | OnExplosion
  | OnReturn
  | PreventDefault

text \<open>
  The mutable state: the module variables \<open>animationState\<close>, \<open>particles\<close>,
  \<open>testParticles\<close> (animation module) and \<open>returnTimer\<close> (event module), the
  host's pending timeouts (handle, closure, delay in milliseconds), the host's
  next free handle, the pending animation-frame requests, and the trace.
  The host hands out positive integers as timer handles, so a handle is never
  falsy and \<open>if (returnTimer)\<close> is the test for \<open>null\<close>; handles are modelled
  as identifiers of type \<open>nat\<close>.
\<close>

record app =
  animationState :: anim_state
  particles :: "particle list"
  testParticles :: "particle list"
  returnTimer :: "nat option"
  timers :: "(nat \<times> scheduled \<times> real) list"
  nextTimer :: nat
  frameRequests :: "scheduled list"
  trace :: "call list"

text \<open>
  A call either returns or throws; the state reached is kept in both cases,
  because what was written before an exception stays written.
\<close>

datatype outcome = Returned app | Thrown error app

fun state_of :: "outcome \<Rightarrow> app" where
  "state_of (Returned s) = s"
| "state_of (Thrown e s) = s"

definition invoke :: "call \<Rightarrow> app \<Rightarrow> app" where
  "invoke c s = s\<lparr>trace := trace s @ [c]\<rparr>"

definition setTimeout :: "scheduled \<Rightarrow> real \<Rightarrow> app \<Rightarrow> nat \<times> app" where
  "setTimeout k delay s =
     (nextTimer s,
      s\<lparr>timers := timers s @ [(nextTimer s, k, delay)], nextTimer := Suc (nextTimer s)\<rparr>)"

definition clearTimeout :: "nat \<Rightarrow> app \<Rightarrow> app" where
  "clearTimeout h s = s\<lparr>timers := filter (\<lambda>(h', k, d). h' \<noteq> h) (timers s)\<rparr>"

definition requestAnimationFrame :: "scheduled \<Rightarrow> app \<Rightarrow> app" where
  "requestAnimationFrame k s = s\<lparr>frameRequests := frameRequests s @ [k]\<rparr>"

section \<open>State machine controller and frame driver\<close>

text \<open>\<open>setAnimationState\<close> (part_002, lines 50-55).\<close>

definition setAnimationState :: "callbacks \<Rightarrow> anim_state \<Rightarrow> app \<Rightarrow> app" where
  "setAnimationState cb newState s =
     (let s1 = s\<lparr>animationState := newState\<rparr>
      in if updateCameraFn cb then invoke (UpdateCamera newState) s1 else s1)"

text \<open>
  One of the two \<open>forEach\<close> loops of \<open>animateParticles\<close> (part_002, lines 108-117
  and 120-129; the two bodies are the same). The loop updates the array in
  place from index \<open>index\<close> on and carries the flag \<open>allReturned\<close>. An exception
  leaves the loop with the rest of the array untouched.
\<close>

fun forEachParticle ::
  "config \<Rightarrow> callbacks \<Rightarrow> anim_state \<Rightarrow> real \<Rightarrow> nat \<Rightarrow> particle list \<Rightarrow> bool
     \<Rightarrow> particle list \<times> (error + bool)" where
  "forEachParticle CONFIG cb st time index [] allReturned = ([], Inr allReturned)"
| "forEachParticle CONFIG cb st time index (p # ps) allReturned =
     (case animateSingleParticle CONFIG cb st p index time of
        Inl e \<Rightarrow> (p # ps, Inl e)
      | Inr p' \<Rightarrow>
          if st = RETURNING then
            (case userData p' of
               None \<Rightarrow> (p' # ps, Inl TypeError)
             | Some ud \<Rightarrow>
                 let dist = distanceTo (position p') (originalPos ud);
                     r = forEachParticle CONFIG cb st time (Suc index) ps
                           (if dist > 0.1 then False else allReturned)
                 in (p' # fst r, snd r))
          else
            (let r = forEachParticle CONFIG cb st time (Suc index) ps allReturned
             in (p' # fst r, snd r)))"

text \<open>\<open>animateParticles\<close> (part_002, lines 104-132).\<close>

definition animateParticles :: "config \<Rightarrow> callbacks \<Rightarrow> real \<Rightarrow> app \<Rightarrow> app \<times> (error + bool)" where
  "animateParticles CONFIG cb time s =
     (let r1 = forEachParticle CONFIG cb (animationState s) time 0 (particles s) True;
          s1 = s\<lparr>particles := fst r1\<rparr>
      in case snd r1 of
           Inl e \<Rightarrow> (s1, Inl e)
         | Inr allReturned \<Rightarrow>
             let r2 = forEachParticle CONFIG cb (animationState s) time 0
                        (testParticles s) allReturned
             in (s1\<lparr>testParticles := fst r2\<rparr>, snd r2))"

text \<open>
  \<open>animate\<close> (part_002, lines 65-102); \<open>time\<close> is the value of \<open>Date.now()\<close>.
  \<open>initAnimation\<close> has run: \<open>CONFIG\<close> and the two particle arrays are set.
\<close>

definition animate :: "config \<Rightarrow> callbacks \<Rightarrow> real \<Rightarrow> app \<Rightarrow> outcome" where
  "animate CONFIG cb time s0 =
     (let s1 = (if uncapFPS CONFIG then snd (setTimeout AnimateCallback 0 s0)
                else requestAnimationFrame AnimateCallback s0);
          s2 = (if updateFpsFn cb then invoke (UpdateFps (showFPS CONFIG)) s1 else s1);
          s3 = (if updateParallaxTargetsFn cb \<and> applyParallaxToGroupFn cb
                then invoke ApplyParallaxToGroup
                       (invoke (UpdateParallaxTargets (animationState s2)) s2)
                else s2);
          s4 = (case getMouseFn cb of
                  Some m \<Rightarrow>
                    if animateShowcaseBoxFn cb \<and> getLastMouseMoveTimeFn cb
                    then invoke (AnimateShowcaseBox m) s3 else s3
                | None \<Rightarrow> s3)
      in case animateParticles CONFIG cb time s4 of
           (s5, Inl e) \<Rightarrow> Thrown e s5
         | (s5, Inr allReturned) \<Rightarrow>
             let s6 = (if animationState s5 = RETURNING \<and> allReturned
                       then setAnimationState cb IDLE s5 else s5);
                 s7 = (if renderShowcaseFn cb
                       then invoke (RenderShowcase (particles s6) (testParticles s6)) s6
                       else s6)
             in Returned s7)"

section \<open>Input and timer controller\<close>

datatype event_type = mousedown | touchstart | touchend

text \<open>
  The fields of the DOM event that \<open>triggerExplosion\<close> reads:
  \<open>target_in_gui\<close> is the truth value of \<open>event.target.closest('.dg')\<close>.
\<close>

record event =
  target_in_gui :: bool
  etype :: event_type

text \<open>
  \<open>clearReturnTimer\<close> (part_000, lines 104-109). Its body is also the block
  \<open>if (returnTimer) { clearTimeout(returnTimer); returnTimer = null; }\<close> that
  \<open>triggerExplosion\<close> contains twice.
\<close>

definition clearReturnTimer :: "app \<Rightarrow> app" where
  "clearReturnTimer s =
     (case returnTimer s of
        Some h \<Rightarrow> (clearTimeout h s)\<lparr>returnTimer := None\<rparr>
      | None \<Rightarrow> s)"

text \<open>The closure passed to \<open>setTimeout\<close> (part_000, lines 96-101).\<close>

definition returnTimerCallback :: "callbacks \<Rightarrow> app \<Rightarrow> outcome" where
  "returnTimerCallback cb s =
     (if \<not> onReturn cb then Thrown TypeError s
      else let s1 = invoke OnReturn s
           in if \<not> setAnimationState_cb cb then Thrown TypeError s1
              else Returned ((setAnimationState cb RETURNING s1)\<lparr>returnTimer := None\<rparr>))"

text \<open>
  The part of \<open>triggerExplosion\<close> from \<open>const state = getAnimationState()\<close> to
  the end, which is the same text in both event modules (part_000, lines
  64-101; events.js, lines 101-138). Calling a callback variable that holds no
  function raises a \<open>TypeError\<close>.
\<close>

definition triggerFromState :: "config \<Rightarrow> callbacks \<Rightarrow> app \<Rightarrow> outcome" where
  "triggerFromState CONFIG cb s =
     (if \<not> getAnimationState_cb cb then Thrown TypeError s
      else
        let state = animationState s in
        if state = EXPLODING \<and> reassembleOnClick CONFIG then
          (let s1 = clearReturnTimer s in
           if \<not> onReturn cb then Thrown TypeError s1
           else let s2 = invoke OnReturn s1
                in if \<not> setAnimationState_cb cb then Thrown TypeError s2
                   else Returned (setAnimationState cb RETURNING s2))
        else if state \<noteq> IDLE \<and> state \<noteq> RETURNING then Returned s
        else
          (let s1 = clearReturnTimer s in
           if \<not> setAnimationState_cb cb then Thrown TypeError s1
           else let s2 = setAnimationState cb EXPLODING s1
                in if \<not> onExplosion cb then Thrown TypeError s2
                   else let s3 = invoke OnExplosion s2;
                            r = setTimeout ReturnCallback (holdDuration CONFIG) s3
                        in Returned ((snd r)\<lparr>returnTimer := Some (fst r)\<rparr>)))"

text \<open>\<open>triggerExplosion\<close> of part_000 (lines 51-102).\<close>

definition triggerExplosion :: "config \<Rightarrow> callbacks \<Rightarrow> event \<Rightarrow> app \<Rightarrow> outcome" where
  "triggerExplosion CONFIG cb ev s =
     (if target_in_gui ev then Returned s
      else triggerFromState CONFIG cb
             (if etype ev = touchstart then invoke PreventDefault s else s))"

text \<open>\<open>triggerExplosion\<close> of src/js/interaction/events.js (lines 94-139).\<close>

definition triggerExplosion_events :: "config \<Rightarrow> callbacks \<Rightarrow> event \<Rightarrow> app \<Rightarrow> outcome" where
  "triggerExplosion_events CONFIG cb ev s =
     (if target_in_gui ev then Returned s else triggerFromState CONFIG cb s)"

section \<open>Everything that can run\<close>

text \<open>
  The entry points through which the host runs code of the two modules:
  the listeners registered by \<open>initEvents\<close>, a pending timeout or animation
  frame coming due, and the exported \<open>clearReturnTimer\<close> and
  \<open>startAnimationLoop\<close>.
\<close>

datatype input =
    Listener event
  | ListenerEvents event
  | TimerFires nat
  | FrameFires
  | ClearReturnTimer
  | StartAnimationLoop

definition runScheduled :: "config \<Rightarrow> callbacks \<Rightarrow> real \<Rightarrow> scheduled \<Rightarrow> app \<Rightarrow> outcome" where
  "runScheduled CONFIG cb time k s =
     (case k of
        ReturnCallback \<Rightarrow> returnTimerCallback cb s
      | AnimateCallback \<Rightarrow> animate CONFIG cb time s)"

definition step :: "config \<Rightarrow> callbacks \<Rightarrow> real \<Rightarrow> input \<Rightarrow> app \<Rightarrow> outcome" where
  "step CONFIG cb time inp s =
     (case inp of
        Listener ev \<Rightarrow> triggerExplosion CONFIG cb ev s
      | ListenerEvents ev \<Rightarrow> triggerExplosion_events CONFIG cb ev s
      | TimerFires h \<Rightarrow>
          (case find (\<lambda>(h', k, d). h' = h) (timers s) of
             None \<Rightarrow> Returned s
           | Some (h', k, d) \<Rightarrow> runScheduled CONFIG cb time k (clearTimeout h s))
      | FrameFires \<Rightarrow>
          (case frameRequests s of
             [] \<Rightarrow> Returned s
           | k # ks \<Rightarrow> runScheduled CONFIG cb time k (s\<lparr>frameRequests := ks\<rparr>))
      | ClearReturnTimer \<Rightarrow> Returned (clearReturnTimer s)
      | StartAnimationLoop \<Rightarrow> animate CONFIG cb time s)"

section \<open>Specification-side definitions\<close>

text \<open>
  The convergence test in the spec's words (section 4.4): a particle has
  converged when the Euclidean distance between its position and its rest
  position is at most 0.1. A record without a rest position has not converged.
\<close>

definition converged :: "particle \<Rightarrow> bool" where
  "converged p =
     (case userData p of
        Some ud \<Rightarrow> distanceTo (position p) (originalPos ud) \<le> 0.1
      | None \<Rightarrow> False)"

text \<open>
  The two-phase reading of a frame tick (spec, section 5): first the
  integrator runs over a whole array (stopping where an update throws), then
  every distance is inspected. \<open>integrateAll\<close> is the first phase for one
  array.
\<close>

fun integrateAll ::
  "config \<Rightarrow> callbacks \<Rightarrow> anim_state \<Rightarrow> real \<Rightarrow> nat \<Rightarrow> particle list
     \<Rightarrow> particle list \<times> error option" where
  "integrateAll CONFIG cb st time index [] = ([], None)"
| "integrateAll CONFIG cb st time index (p # ps) =
     (case animateSingleParticle CONFIG cb st p index time of
        Inl e \<Rightarrow> (p # ps, Some e)
      | Inr p' \<Rightarrow>
          let r = integrateAll CONFIG cb st time (Suc index) ps
          in (p' # fst r, snd r))"

definition animateParticles_twoPhase ::
  "config \<Rightarrow> callbacks \<Rightarrow> real \<Rightarrow> app \<Rightarrow> app \<times> (error + bool)" where
  "animateParticles_twoPhase CONFIG cb time s =
     (let r1 = integrateAll CONFIG cb (animationState s) time 0 (particles s);
          s1 = s\<lparr>particles := fst r1\<rparr>
      in case snd r1 of
           Some e \<Rightarrow> (s1, Inl e)
         | None \<Rightarrow>
             let r2 = integrateAll CONFIG cb (animationState s) time 0 (testParticles s);
                 s2 = s1\<lparr>testParticles := fst r2\<rparr>
             in case snd r2 of
                  Some e \<Rightarrow> (s2, Inl e)
                | None \<Rightarrow>
                    (s2, Inr (if animationState s = RETURNING
                              then list_all converged (particles s2 @ testParticles s2)
                              else True)))"

text \<open>
  The statements of \<open>animate\<close> before the particle loops (part_002, lines
  66-88), named so that lemmas can speak about them.
\<close>

definition framePrelude :: "config \<Rightarrow> callbacks \<Rightarrow> app \<Rightarrow> app" where
  "framePrelude CONFIG cb s0 =
     (let s1 = (if uncapFPS CONFIG then snd (setTimeout AnimateCallback 0 s0)
                else requestAnimationFrame AnimateCallback s0);
          s2 = (if updateFpsFn cb then invoke (UpdateFps (showFPS CONFIG)) s1 else s1);
          s3 = (if updateParallaxTargetsFn cb \<and> applyParallaxToGroupFn cb
                then invoke ApplyParallaxToGroup
                       (invoke (UpdateParallaxTargets (animationState s2)) s2)
                else s2)
      in (case getMouseFn cb of
            Some m \<Rightarrow>
              if animateShowcaseBoxFn cb \<and> getLastMouseMoveTimeFn cb
              then invoke (AnimateShowcaseBox m) s3 else s3
          | None \<Rightarrow> s3))"

text \<open>
  Whether an input makes the host run \<open>animate\<close>.
\<close>

definition runsAnimate :: "input \<Rightarrow> app \<Rightarrow> bool" where
  "runsAnimate inp s =
     (case inp of
        Listener ev \<Rightarrow> False
      | ListenerEvents ev \<Rightarrow> False
      | TimerFires h \<Rightarrow>
          (case find (\<lambda>(h', k, d). h' = h) (timers s) of
             Some (h', AnimateCallback, d) \<Rightarrow> True
           | _ \<Rightarrow> False)
      | FrameFires \<Rightarrow> (case frameRequests s of AnimateCallback # ks \<Rightarrow> True | _ \<Rightarrow> False)
      | ClearReturnTimer \<Rightarrow> False
      | StartAnimationLoop \<Rightarrow> True)"

text \<open>
  The host never hands out a handle that is still pending: every pending
  timeout has a handle below the next one.
\<close>

definition handlesFresh :: "app \<Rightarrow> bool" where
  "handlesFresh s = list_all (\<lambda>(h, k, d). h < nextTimer s) (timers s)"

text \<open>
  What a trigger from IDLE or RETURNING leaves behind (\<open>s\<close> before, \<open>s'\<close>
  after; \<open>pre\<close> is what was traced before the state was read): the state is
  EXPLODING, the camera hook (if any) and the explosion callback were each
  invoked once, every pending timeout under the old handle is gone, one new
  timeout for \<open>holdDuration\<close> is pending, and \<open>returnTimer\<close> holds its handle.
\<close>

definition explosionStarted :: "config \<Rightarrow> callbacks \<Rightarrow> call list \<Rightarrow> app \<Rightarrow> app \<Rightarrow> bool" where
  "explosionStarted CONFIG cb pre s s' =
     (animationState s' = EXPLODING
      \<and> trace s' = trace s @ pre
                     @ (if updateCameraFn cb then [UpdateCamera EXPLODING] else [])
                     @ [OnExplosion]
      \<and> timers s' = filter (\<lambda>(h, k, d). Some h \<noteq> returnTimer s) (timers s)
                      @ [(nextTimer s, ReturnCallback, holdDuration CONFIG)]
      \<and> returnTimer s' = Some (nextTimer s)
      \<and> nextTimer s' = Suc (nextTimer s)
      \<and> frameRequests s' = frameRequests s
      \<and> particles s' = particles s
      \<and> testParticles s' = testParticles s)"

text \<open>
  What a trigger during EXPLODING with \<open>reassembleOnClick\<close> leaves behind:
  the state is RETURNING, the return callback was invoked once, the old
  timeout is gone and no timeout was added.
\<close>

definition returnStarted :: "callbacks \<Rightarrow> call list \<Rightarrow> app \<Rightarrow> app \<Rightarrow> bool" where
  "returnStarted cb pre s s' =
     (animationState s' = RETURNING
      \<and> returnTimer s' = None
      \<and> timers s' = filter (\<lambda>(h, k, d). Some h \<noteq> returnTimer s) (timers s)
      \<and> nextTimer s' = nextTimer s
      \<and> trace s' = trace s @ pre @ [OnReturn]
                     @ (if updateCameraFn cb then [UpdateCamera RETURNING] else [])
      \<and> frameRequests s' = frameRequests s
      \<and> particles s' = particles s
      \<and> testParticles s' = testParticles s)"

text \<open>
  A particle record that has the fields of \<open>createParticleUserData\<close>.
\<close>

definition wellFormed :: "particle \<Rightarrow> bool" where
  "wellFormed p = (userData p \<noteq> None)"

text \<open>
  \<open>ps'\<close> holds, position by position, the result of \<open>animateSingleParticle\<close>
  on \<open>ps\<close>, the first particle having index \<open>index\<close>.
\<close>

definition updatedFrom ::
  "config \<Rightarrow> callbacks \<Rightarrow> anim_state \<Rightarrow> real \<Rightarrow> nat \<Rightarrow> particle list \<Rightarrow> particle list \<Rightarrow> bool" where
  "updatedFrom CONFIG cb st time index ps ps' =
     (map (\<lambda>(j, q). animateSingleParticle CONFIG cb st q j time) (enumerate index ps)
        = map Inr ps')"

text \<open>
  A complete or empty record as a record with optional fields.
\<close>

definition js_of :: "particle \<Rightarrow> jsParticle" where
  "js_of p =
     \<lparr>js_position = position p, js_rotation = rotation p,
      js_userData =
        map_option
          (\<lambda>ud. \<lparr>js_originalPos = Some (originalPos ud),
                  js_explosionTarget = Some (explosionTarget ud),
                  js_rotSpeed = Some (rotSpeed ud),
                  js_individualParallaxShift = Some (individualParallaxShift ud),
                  js_baseParallaxSensitivity = baseParallaxSensitivity ud\<rparr>)
          (userData p)\<rparr>"

text \<open>
  \<open>updatedFrom\<close> for records with optional fields.
\<close>

definition updatedFrom_js ::
  "config \<Rightarrow> callbacks \<Rightarrow> anim_state \<Rightarrow> real \<Rightarrow> nat \<Rightarrow> jsParticle list \<Rightarrow> jsParticle list
     \<Rightarrow> bool" where
  "updatedFrom_js CONFIG cb st time index ps ps' =
     (map (\<lambda>(j, q). animateSingleParticle_js CONFIG cb st q j time) (enumerate index ps)
        = map Inr ps')"

section \<open>Concrete inputs\<close>

text \<open>
  The values of src/v4/config.js for the fields it sets; \<open>showFPS\<close> and
  \<open>explodedParallaxEnabled\<close> are absent there, hence falsy.
\<close>

definition example_config :: config where
  "example_config =
     \<lparr>uncapFPS = False, showFPS = False, animationSpeed = 0.12, idleFloatSpeed = 0.005,
      idleFloatAmount = 0.02, explodedParallaxEnabled = False, explodedParallaxStrength = 0,
      holdDuration = 15000, reassembleOnClick = True\<rparr>"

definition all_callbacks :: callbacks where
  "all_callbacks =
     \<lparr>updateFpsFn = True, updateParallaxTargetsFn = True, applyParallaxToGroupFn = True,
      animateShowcaseBoxFn = True, renderShowcaseFn = True,
      getMouseFn = Some \<lparr>mx = 0, my = 0\<rparr>, getLastMouseMoveTimeFn = True,
      updateCameraFn = True, onExplosion = True, onReturn = True,
      getAnimationState_cb = True, setAnimationState_cb = True\<rparr>"

definition wired_only :: callbacks where
  "wired_only =
     \<lparr>updateFpsFn = False, updateParallaxTargetsFn = False, applyParallaxToGroupFn = False,
      animateShowcaseBoxFn = False, renderShowcaseFn = False,
      getMouseFn = None, getLastMouseMoveTimeFn = False,
      updateCameraFn = False, onExplosion = False, onReturn = False,
      getAnimationState_cb = True, setAnimationState_cb = True\<rparr>"

definition origin :: vec3 where
  "origin = \<lparr>vx = 0, vy = 0, vz = 0\<rparr>"

definition resting_particle :: particle where
  "resting_particle =
     \<lparr>position = origin, rotation = origin,
      userData = Some \<lparr>originalPos = origin,
                       explosionTarget = \<lparr>vx = 10, vy = 0, vz = 0\<rparr>,
                       rotSpeed = \<lparr>vx = 0.01, vy = 0, vz = 0\<rparr>,
                       individualParallaxShift = origin,
                       baseParallaxSensitivity = 1\<rparr>\<rparr>"

definition far_particle :: particle where
  "far_particle = resting_particle\<lparr>position := \<lparr>vx = 1, vy = 0, vz = 0\<rparr>\<rparr>"

definition shiftless_particle :: jsParticle where
  "shiftless_particle =
     \<lparr>js_position = \<lparr>vx = 1, vy = 0, vz = 0\<rparr>, js_rotation = origin,
      js_userData = Some \<lparr>js_originalPos = Some origin,
                          js_explosionTarget = Some \<lparr>vx = 10, vy = 0, vz = 0\<rparr>,
                          js_rotSpeed = Some \<lparr>vx = 0.01, vy = 0, vz = 0\<rparr>,
                          js_individualParallaxShift = None,
                          js_baseParallaxSensitivity = 1\<rparr>\<rparr>"

definition malformed_particle :: particle where
  "malformed_particle = \<lparr>position = origin, rotation = origin, userData = None\<rparr>"

definition example_scene :: "anim_state \<Rightarrow> particle list \<Rightarrow> particle list \<Rightarrow> app" where
  "example_scene st ps tps =
     \<lparr>animationState = st, particles = ps, testParticles = tps, returnTimer = None,
      timers = [], nextTimer = 0, frameRequests = [], trace = []\<rparr>"

definition exploding_scene :: app where
  "exploding_scene =
     \<lparr>animationState = EXPLODING, particles = [resting_particle], testParticles = [],
      returnTimer = Some 0, timers = [(0, ReturnCallback, 15000)], nextTimer = 1,
      frameRequests = [AnimateCallback], trace = [UpdateCamera EXPLODING, OnExplosion]\<rparr>"

definition click :: event where
  "click = \<lparr>target_in_gui = False, etype = mousedown\<rparr>"

section \<open>Lemmas\<close>

lemmas example_defs =
  example_config_def all_callbacks_def wired_only_def origin_def resting_particle_def
  far_particle_def malformed_particle_def example_scene_def click_def

lemmas run_defs =
  animate_def animateParticles_def animateSingleParticle_def setAnimationState_def
  invoke_def setTimeout_def clearTimeout_def requestAnimationFrame_def
  distanceTo_def distanceToSquared_def lerp_def multiplyScalar_def Let_def

lemma beyond_tolerance:
  assumes "0.01 < distanceToSquared a b"
  shows "\<not> distanceTo a b \<le> 0.1"
proof
  assume "distanceTo a b \<le> 0.1"
  then have "distanceToSquared a b \<le> (0.1)\<^sup>2"
    unfolding distanceTo_def by (rule sqrt_le_D)
  with assms show False by (simp add: power2_eq_square)
qed

lemma far_particle_after_one_tick:
  "animate example_config all_callbacks 0
       (example_scene RETURNING [resting_particle] [far_particle])
     = Returned
         ((example_scene RETURNING
             [resting_particle\<lparr>rotation := \<lparr>vx = 0.01, vy = 0, vz = 0\<rparr>\<rparr>]
             [far_particle\<lparr>rotation := \<lparr>vx = 0.01, vy = 0, vz = 0\<rparr>,
                           position := \<lparr>vx = 0.88, vy = 0, vz = 0\<rparr>\<rparr>])
          \<lparr>frameRequests := [AnimateCallback],
           trace := [UpdateFps False, UpdateParallaxTargets RETURNING, ApplyParallaxToGroup,
                     AnimateShowcaseBox \<lparr>mx = 0, my = 0\<rparr>,
                     RenderShowcase
                       [resting_particle\<lparr>rotation := \<lparr>vx = 0.01, vy = 0, vz = 0\<rparr>\<rparr>]
                       [far_particle\<lparr>rotation := \<lparr>vx = 0.01, vy = 0, vz = 0\<rparr>,
                                     position := \<lparr>vx = 0.88, vy = 0, vz = 0\<rparr>\<rparr>]]\<rparr>)"
proof -
  have "\<not> distanceTo \<lparr>vx = 0.88, vy = 0, vz = 0\<rparr> origin \<le> 0.1"
    by (rule beyond_tolerance) (simp add: distanceToSquared_def origin_def)
  then show ?thesis
    by (simp add: example_defs animate_def animateParticles_def animateSingleParticle_def
          setAnimationState_def invoke_def requestAnimationFrame_def lerp_def
          multiplyScalar_def Let_def)
qed

lemma animateSingleParticle_userData:
  "animateSingleParticle CONFIG cb st p index time = Inr p' \<Longrightarrow> userData p' \<noteq> None"
  by (auto simp add: animateSingleParticle_def Let_def split: option.splits if_splits)

lemma animateSingleParticle_Inl:
  "animateSingleParticle CONFIG cb st p index time = Inl e \<longleftrightarrow> userData p = None"
  by (cases e) (auto simp add: animateSingleParticle_def Let_def split: option.splits if_splits)

lemma animateSingleParticle_Inr:
  "userData p \<noteq> None \<Longrightarrow> \<exists>p'. animateSingleParticle CONFIG cb st p index time = Inr p'"
  by (cases st) (auto simp add: animateSingleParticle_def Let_def)

lemma forEachParticle_integrateAll:
  "forEachParticle CONFIG cb st time index ps a =
     (fst (integrateAll CONFIG cb st time index ps),
      case snd (integrateAll CONFIG cb st time index ps) of
        Some e \<Rightarrow> Inl e
      | None \<Rightarrow> Inr (a \<and> (if st = RETURNING
                            then list_all converged (fst (integrateAll CONFIG cb st time index ps))
                            else True)))"
proof (induction ps arbitrary: index a)
  case Nil
  show ?case by simp
next
  case (Cons p ps)
  show ?case
  proof (cases "animateSingleParticle CONFIG cb st p index time")
    case (Inl e)
    then show ?thesis by simp
  next
    case (Inr p')
    then obtain ud where ud: "userData p' = Some ud"
      using animateSingleParticle_userData by blast
    show ?thesis
      using Inr ud Cons.IH
      by (auto simp add: Let_def converged_def split: option.splits)
  qed
qed

lemma animateParticles_two_phase:
  "animateParticles CONFIG cb time s = animateParticles_twoPhase CONFIG cb time s"
  by (simp add: animateParticles_def animateParticles_twoPhase_def Let_def
        forEachParticle_integrateAll split: option.splits)

lemma integrateAll_throws_not_converged:
  "snd (integrateAll CONFIG cb st time index ps) = Some e \<Longrightarrow>
   \<not> list_all converged (fst (integrateAll CONFIG cb st time index ps))"
proof (induction ps arbitrary: index)
  case Nil
  then show ?case by simp
next
  case (Cons p ps)
  show ?case
  proof (cases "animateSingleParticle CONFIG cb st p index time")
    case (Inl e')
    then have "userData p = None" by (simp add: animateSingleParticle_Inl)
    with Inl show ?thesis by (simp add: converged_def)
  next
    case (Inr p')
    with Cons show ?thesis by (simp add: Let_def)
  qed
qed

lemma invoke_fields:
  "animationState (invoke c s) = animationState s"
  "particles (invoke c s) = particles s"
  "testParticles (invoke c s) = testParticles s"
  "returnTimer (invoke c s) = returnTimer s"
  "timers (invoke c s) = timers s"
  "nextTimer (invoke c s) = nextTimer s"
  "frameRequests (invoke c s) = frameRequests s"
  "trace (invoke c s) = trace s @ [c]"
  by (simp_all add: invoke_def)

lemma setAnimationState_fields:
  "animationState (setAnimationState cb st s) = st"
  "particles (setAnimationState cb st s) = particles s"
  "testParticles (setAnimationState cb st s) = testParticles s"
  "returnTimer (setAnimationState cb st s) = returnTimer s"
  "timers (setAnimationState cb st s) = timers s"
  "nextTimer (setAnimationState cb st s) = nextTimer s"
  "frameRequests (setAnimationState cb st s) = frameRequests s"
  "trace (setAnimationState cb st s) =
     trace s @ (if updateCameraFn cb then [UpdateCamera st] else [])"
  by (simp_all add: setAnimationState_def invoke_def Let_def)

lemma clearReturnTimer_fields:
  "animationState (clearReturnTimer s) = animationState s"
  "particles (clearReturnTimer s) = particles s"
  "testParticles (clearReturnTimer s) = testParticles s"
  "returnTimer (clearReturnTimer s) = None"
  "timers (clearReturnTimer s) = filter (\<lambda>(h, k, d). Some h \<noteq> returnTimer s) (timers s)"
  "nextTimer (clearReturnTimer s) = nextTimer s"
  "frameRequests (clearReturnTimer s) = frameRequests s"
  "trace (clearReturnTimer s) = trace s"
  by (auto simp add: clearReturnTimer_def clearTimeout_def split: option.splits
        intro!: filter_cong)

lemma clearTimeout_fields:
  "animationState (clearTimeout h s) = animationState s"
  "particles (clearTimeout h s) = particles s"
  "testParticles (clearTimeout h s) = testParticles s"
  "returnTimer (clearTimeout h s) = returnTimer s"
  "nextTimer (clearTimeout h s) = nextTimer s"
  "frameRequests (clearTimeout h s) = frameRequests s"
  "trace (clearTimeout h s) = trace s"
  by (simp_all add: clearTimeout_def)

lemma setTimeout_fields:
  "fst (setTimeout k d s) = nextTimer s"
  "animationState (snd (setTimeout k d s)) = animationState s"
  "particles (snd (setTimeout k d s)) = particles s"
  "testParticles (snd (setTimeout k d s)) = testParticles s"
  "returnTimer (snd (setTimeout k d s)) = returnTimer s"
  "timers (snd (setTimeout k d s)) = timers s @ [(nextTimer s, k, d)]"
  "nextTimer (snd (setTimeout k d s)) = Suc (nextTimer s)"
  "frameRequests (snd (setTimeout k d s)) = frameRequests s"
  "trace (snd (setTimeout k d s)) = trace s"
  by (simp_all add: setTimeout_def)

lemma framePrelude_fields:
  "animationState (framePrelude CONFIG cb s) = animationState s"
  "particles (framePrelude CONFIG cb s) = particles s"
  "testParticles (framePrelude CONFIG cb s) = testParticles s"
  "returnTimer (framePrelude CONFIG cb s) = returnTimer s"
  by (simp_all add: framePrelude_def setTimeout_def requestAnimationFrame_def invoke_def
        Let_def split: option.splits)

lemma animate_unfold:
  "animate CONFIG cb time s =
     (case animateParticles_twoPhase CONFIG cb time (framePrelude CONFIG cb s) of
        (s5, Inl e) \<Rightarrow> Thrown e s5
      | (s5, Inr allReturned) \<Rightarrow>
          let s6 = (if animationState s5 = RETURNING \<and> allReturned
                    then setAnimationState cb IDLE s5 else s5);
              s7 = (if renderShowcaseFn cb
                    then invoke (RenderShowcase (particles s6) (testParticles s6)) s6
                    else s6)
          in Returned s7)"
  unfolding animate_def framePrelude_def Let_def animateParticles_two_phase
  by (rule refl)

lemma animate_idle_iff:
  assumes "animationState s \<noteq> IDLE"
  shows "animationState (state_of (animate CONFIG cb time s)) = IDLE \<longleftrightarrow>
         animationState s = RETURNING \<and>
         list_all converged (particles (state_of (animate CONFIG cb time s))
                             @ testParticles (state_of (animate CONFIG cb time s)))"
  using assms
  unfolding animate_unfold animateParticles_twoPhase_def Let_def
  by (auto simp add: framePrelude_fields setAnimationState_fields invoke_fields
        dest: integrateAll_throws_not_converged
        split: option.splits)

lemma triggerFromState_not_to_idle:
  "animationState s \<noteq> IDLE \<Longrightarrow>
   animationState (state_of (triggerFromState CONFIG cb s)) \<noteq> IDLE"
  unfolding triggerFromState_def Let_def
  by (simp add: clearReturnTimer_fields setAnimationState_fields invoke_fields setTimeout_fields)

lemma returnTimerCallback_not_to_idle:
  "animationState s \<noteq> IDLE \<Longrightarrow>
   animationState (state_of (returnTimerCallback cb s)) \<noteq> IDLE"
  unfolding returnTimerCallback_def Let_def
  by (simp add: setAnimationState_fields invoke_fields)

lemma step_to_idle:
  assumes "animationState s \<noteq> IDLE"
    and "animationState (state_of (step CONFIG cb time inp s)) = IDLE"
  shows "animationState s = RETURNING \<and> runsAnimate inp s \<and>
         list_all converged (particles (state_of (step CONFIG cb time inp s))
                             @ testParticles (state_of (step CONFIG cb time inp s)))"
proof (cases inp)
  case (Listener ev)
  with assms show ?thesis
    using triggerFromState_not_to_idle [of s CONFIG cb]
      triggerFromState_not_to_idle [of "invoke PreventDefault s" CONFIG cb]
    by (simp add: step_def triggerExplosion_def invoke_fields split: if_splits)
next
  case (ListenerEvents ev)
  with assms show ?thesis
    using triggerFromState_not_to_idle [of s CONFIG cb]
    by (simp add: step_def triggerExplosion_events_def split: if_splits)
next
  case (TimerFires h)
  show ?thesis
  proof (cases "find (\<lambda>(h', k, d). h' = h) (timers s)")
    case None
    with assms TimerFires show ?thesis by (simp add: step_def)
  next
    case (Some e)
    obtain h' k d where e: "e = (h', k, d)" by (cases e)
    show ?thesis
    proof (cases k)
      case ReturnCallback
      with assms TimerFires Some e show ?thesis
        using returnTimerCallback_not_to_idle [of "clearTimeout h s" cb]
        by (simp add: step_def runScheduled_def clearTimeout_fields)
    next
      case AnimateCallback
      with assms TimerFires Some e show ?thesis
        using animate_idle_iff [of "clearTimeout h s" CONFIG cb time]
        by (simp add: step_def runScheduled_def clearTimeout_fields runsAnimate_def)
    qed
  qed
next
  case FrameFires
  show ?thesis
  proof (cases "frameRequests s")
    case Nil
    with assms FrameFires show ?thesis by (simp add: step_def)
  next
    case (Cons k ks)
    show ?thesis
    proof (cases k)
      case ReturnCallback
      with assms FrameFires Cons show ?thesis
        using returnTimerCallback_not_to_idle [of "s\<lparr>frameRequests := ks\<rparr>" cb]
        by (simp add: step_def runScheduled_def)
    next
      case AnimateCallback
      with assms FrameFires Cons show ?thesis
        using animate_idle_iff [of "s\<lparr>frameRequests := ks\<rparr>" CONFIG cb time]
        by (simp add: step_def runScheduled_def runsAnimate_def)
    qed
  qed
next
  case ClearReturnTimer
  with assms show ?thesis by (simp add: step_def clearReturnTimer_fields)
next
  case StartAnimationLoop
  with assms show ?thesis
    using animate_idle_iff [of s CONFIG cb time]
    by (simp add: step_def runsAnimate_def)
qed

lemma triggerFromState_explode:
  assumes "animationState s = IDLE \<or> animationState s = RETURNING"
    and "getAnimationState_cb cb" and "setAnimationState_cb cb" and "onExplosion cb"
  shows "triggerFromState CONFIG cb s =
           Returned ((snd (setTimeout ReturnCallback (holdDuration CONFIG)
                        (invoke OnExplosion
                           (setAnimationState cb EXPLODING (clearReturnTimer s)))))
                     \<lparr>returnTimer := Some (nextTimer s)\<rparr>)"
  using assms unfolding triggerFromState_def Let_def
  by (auto simp add: setTimeout_fields invoke_fields setAnimationState_fields
        clearReturnTimer_fields)

lemma explosionStarted_after:
  assumes "trace s0 = trace s @ pre" and "returnTimer s0 = returnTimer s"
    and "timers s0 = timers s" and "nextTimer s0 = nextTimer s"
    and "frameRequests s0 = frameRequests s" and "particles s0 = particles s"
    and "testParticles s0 = testParticles s"
  shows "explosionStarted CONFIG cb pre s
           ((snd (setTimeout ReturnCallback (holdDuration CONFIG)
                (invoke OnExplosion
                   (setAnimationState cb EXPLODING (clearReturnTimer s0)))))
             \<lparr>returnTimer := Some (nextTimer s0)\<rparr>)"
  using assms
  by (simp add: explosionStarted_def setTimeout_fields invoke_fields setAnimationState_fields
        clearReturnTimer_fields)

lemma find_append_None:
  "find Q xs = None \<Longrightarrow> find Q (xs @ ys) = find Q ys"
  by (induction xs) (auto split: if_splits)

lemma find_fresh_timer:
  assumes "handlesFresh s"
  shows "find (\<lambda>(h', k, d). h' = nextTimer s)
           (filter P (timers s) @ [(nextTimer s, k0, d0)]) = Some (nextTimer s, k0, d0)"
proof -
  have "find (\<lambda>(h', k, d). h' = nextTimer s) (filter P (timers s)) = None"
    using assms by (auto simp add: find_None_iff handlesFresh_def list_all_iff)
  then show ?thesis
    by (simp add: find_append_None)
qed

lemma filter_fresh_timer:
  assumes "handlesFresh s"
  shows "filter (\<lambda>(h', k, d). h' \<noteq> nextTimer s)
           (filter P (timers s) @ [(nextTimer s, k0, d0)]) = filter P (timers s)"
  using assms
  by (auto simp add: handlesFresh_def list_all_iff intro!: filter_cong)

lemma returnTimerCallback_ok:
  assumes "onReturn cb" and "setAnimationState_cb cb"
  shows "returnTimerCallback cb s =
           Returned ((setAnimationState cb RETURNING (invoke OnReturn s))\<lparr>returnTimer := None\<rparr>)"
  using assms by (simp add: returnTimerCallback_def Let_def)

lemma timer_fires_after_explosion:
  assumes "handlesFresh s" and "explosionStarted CONFIG cb pre s s'"
    and "onReturn cb" and "setAnimationState_cb cb"
  shows "\<exists>s''. step CONFIG cb time (TimerFires (nextTimer s)) s' = Returned s''
           \<and> animationState s'' = RETURNING \<and> returnTimer s'' = None
           \<and> trace s'' = trace s' @ [OnReturn]
                           @ (if updateCameraFn cb then [UpdateCamera RETURNING] else [])
           \<and> timers s'' = filter (\<lambda>(h, k, d). Some h \<noteq> returnTimer s) (timers s)"
proof -
  let ?old = "filter (\<lambda>(h, k, d). Some h \<noteq> returnTimer s) (timers s)"
  have t: "timers s' = ?old @ [(nextTimer s, ReturnCallback, holdDuration CONFIG)]"
    using assms(2) by (simp add: explosionStarted_def)
  have f: "find (\<lambda>(h', k, d). h' = nextTimer s) (timers s')
             = Some (nextTimer s, ReturnCallback, holdDuration CONFIG)"
    unfolding t by (rule find_fresh_timer [OF assms(1)])
  have c: "timers (clearTimeout (nextTimer s) s') = ?old"
    unfolding clearTimeout_def t using filter_fresh_timer [OF assms(1)] by simp
  have "step CONFIG cb time (TimerFires (nextTimer s)) s' =
          Returned ((setAnimationState cb RETURNING
                      (invoke OnReturn (clearTimeout (nextTimer s) s')))\<lparr>returnTimer := None\<rparr>)"
    using f assms(3,4) by (simp add: step_def runScheduled_def returnTimerCallback_ok)
  then show ?thesis
    using c by (simp add: setAnimationState_fields invoke_fields clearTimeout_fields)
qed

lemma triggerFromState_reassemble:
  assumes "animationState s = EXPLODING" and "reassembleOnClick CONFIG"
    and "getAnimationState_cb cb" and "onReturn cb" and "setAnimationState_cb cb"
  shows "triggerFromState CONFIG cb s =
           Returned (setAnimationState cb RETURNING (invoke OnReturn (clearReturnTimer s)))"
  using assms unfolding triggerFromState_def Let_def
  by (simp add: clearReturnTimer_fields)

lemma triggerFromState_ignored:
  assumes "animationState s = EXPLODING" and "\<not> reassembleOnClick CONFIG"
    and "getAnimationState_cb cb"
  shows "triggerFromState CONFIG cb s = Returned s"
  using assms unfolding triggerFromState_def Let_def by simp

lemma integrateAll_wellFormed:
  assumes "list_all wellFormed ps"
  shows "snd (integrateAll CONFIG cb st time index ps) = None
         \<and> updatedFrom CONFIG cb st time index ps (fst (integrateAll CONFIG cb st time index ps))"
  using assms
proof (induction ps arbitrary: index)
  case Nil
  show ?case by (simp add: updatedFrom_def)
next
  case (Cons p ps)
  then have "userData p \<noteq> None" by (simp add: wellFormed_def)
  then obtain p' where p': "animateSingleParticle CONFIG cb st p index time = Inr p'"
    using animateSingleParticle_Inr by blast
  from Cons have "list_all wellFormed ps" by simp
  from Cons.IH [OF this, of "Suc index"] p' show ?case
    by (simp add: updatedFrom_def Let_def)
qed

lemma integrateAll_fault:
  assumes "list_all wellFormed ps1" and "userData p = None"
  shows "\<exists>ps1'. integrateAll CONFIG cb st time index (ps1 @ p # ps2)
                   = (ps1' @ p # ps2, Some TypeError)
               \<and> updatedFrom CONFIG cb st time index ps1 ps1'"
  using assms(1)
proof (induction ps1 arbitrary: index)
  case Nil
  have "animateSingleParticle CONFIG cb st p index time = Inl TypeError"
    using assms(2) by (simp add: animateSingleParticle_Inl)
  then show ?case by (simp add: updatedFrom_def)
next
  case (Cons q qs)
  then have "userData q \<noteq> None" by (simp add: wellFormed_def)
  then obtain q' where q': "animateSingleParticle CONFIG cb st q index time = Inr q'"
    using animateSingleParticle_Inr by blast
  from Cons have "list_all wellFormed qs" by simp
  from Cons.IH [OF this, of "Suc index"] obtain qs' where
    qs': "integrateAll CONFIG cb st time (Suc index) (qs @ p # ps2)
            = (qs' @ p # ps2, Some TypeError)"
      "updatedFrom CONFIG cb st time (Suc index) qs qs'"
    by blast
  have "integrateAll CONFIG cb st time index ((q # qs) @ p # ps2)
          = ((q' # qs') @ p # ps2, Some TypeError)"
    using q' qs'(1) by (simp add: Let_def)
  moreover have "updatedFrom CONFIG cb st time index (q # qs) (q' # qs')"
    using q' qs'(2) by (simp add: updatedFrom_def)
  ultimately show ?case by blast
qed

lemma animate_returns_when_wellFormed:
  assumes "list_all wellFormed (particles s)" and "list_all wellFormed (testParticles s)"
  shows "\<exists>s'. animate CONFIG cb time s = Returned s'"
proof -
  have "snd (integrateAll CONFIG cb (animationState s) time 0 (particles s)) = None"
    "snd (integrateAll CONFIG cb (animationState s) time 0 (testParticles s)) = None"
    using assms integrateAll_wellFormed by blast+
  then show ?thesis
    unfolding animate_unfold animateParticles_twoPhase_def Let_def
    by (simp add: framePrelude_fields)
qed

lemma animateSingleParticle_js_of:
  "animateSingleParticle_js CONFIG cb st (js_of p) index time =
     (case animateSingleParticle CONFIG cb st p index time of
        Inl e \<Rightarrow> Inl (e, js_of p)
      | Inr p' \<Rightarrow> Inr (js_of p'))"
  by (cases st; cases "userData p")
     (simp_all add: animateSingleParticle_js_def animateSingleParticle_def js_of_def Let_def)

lemma forEachParticle_js_of:
  "forEachParticle_js CONFIG cb st time index (map js_of ps) a =
     (map js_of (fst (forEachParticle CONFIG cb st time index ps a)),
      snd (forEachParticle CONFIG cb st time index ps a))"
proof (induction ps arbitrary: index a)
  case Nil
  show ?case by simp
next
  case (Cons p ps)
  show ?case
  proof (cases "animateSingleParticle CONFIG cb st p index time")
    case (Inl e)
    then show ?thesis by (simp add: animateSingleParticle_js_of)
  next
    case (Inr p')
    then obtain ud where ud: "userData p' = Some ud"
      using animateSingleParticle_userData by blast
    have j: "js_userData (js_of p') = Some \<lparr>js_originalPos = Some (originalPos ud),
                  js_explosionTarget = Some (explosionTarget ud),
                  js_rotSpeed = Some (rotSpeed ud),
                  js_individualParallaxShift = Some (individualParallaxShift ud),
                  js_baseParallaxSensitivity = baseParallaxSensitivity ud\<rparr>"
      "js_position (js_of p') = position p'"
      using ud by (simp_all add: js_of_def)
    show ?thesis
    proof (cases "st = RETURNING")
      case True
      note ih = Cons.IH [unfolded True]
      show ?thesis
        using Inr ud j unfolding True
        by (simp add: animateSingleParticle_js_of Let_def ih)
    next
      case False
      with Inr show ?thesis
        by (simp add: animateSingleParticle_js_of Let_def Cons.IH)
    qed
  qed
qed

lemma animateParticles_js_of:
  "animateParticles_js CONFIG cb (animationState s) time
       (map js_of (particles s)) (map js_of (testParticles s)) =
     ((map js_of (particles (fst (animateParticles CONFIG cb time s))),
       map js_of (testParticles (fst (animateParticles CONFIG cb time s)))),
      snd (animateParticles CONFIG cb time s))"
  unfolding animateParticles_js_def animateParticles_def Let_def forEachParticle_js_of
  by (simp split: sum.splits)

lemma animateSingleParticle_js_rest:
  "animateSingleParticle_js CONFIG cb RETURNING p index time = Inr p' \<Longrightarrow>
   \<exists>ud orig. js_userData p' = Some ud \<and> js_originalPos ud = Some orig"
  by (auto simp add: animateSingleParticle_js_def Let_def split: option.splits)

lemma forEachParticle_js_fault:
  assumes "updatedFrom_js CONFIG cb st time index qs1 qs1'"
    and "animateSingleParticle_js CONFIG cb st q (index + length qs1) time = Inl (e, q')"
  shows "forEachParticle_js CONFIG cb st time index (qs1 @ q # qs2) a
           = (qs1' @ q' # qs2, Inl e)"
  using assms
proof (induction qs1 arbitrary: index qs1' a)
  case Nil
  then show ?case by (simp add: updatedFrom_js_def)
next
  case (Cons x xs)
  from Cons.prems(1) obtain x' xs' where
    s: "qs1' = x' # xs'"
    and x: "animateSingleParticle_js CONFIG cb st x index time = Inr x'"
    and u: "updatedFrom_js CONFIG cb st time (Suc index) xs xs'"
    by (cases qs1') (auto simp add: updatedFrom_js_def)
  from Cons.prems(2)
  have f: "animateSingleParticle_js CONFIG cb st q (Suc index + length xs) time = Inl (e, q')"
    by simp
  have ih: "\<And>b. forEachParticle_js CONFIG cb st time (Suc index) (xs @ q # qs2) b
                 = (xs' @ q' # qs2, Inl e)"
    using Cons.IH [OF u f] .
  show ?case
  proof (cases "st = RETURNING")
    case True
    with x obtain ud orig where "js_userData x' = Some ud" "js_originalPos ud = Some orig"
      using animateSingleParticle_js_rest by blast
    with True x ih s show ?thesis by (simp add: Let_def)
  next
    case False
    with x ih s show ?thesis by (simp add: Let_def)
  qed
qed

lemma forEachParticle_js_done:
  assumes "updatedFrom_js CONFIG cb st time index ms ms'"
  shows "\<exists>b. forEachParticle_js CONFIG cb st time index ms a = (ms', Inr b)"
  using assms
proof (induction ms arbitrary: index ms' a)
  case Nil
  then show ?case by (simp add: updatedFrom_js_def)
next
  case (Cons x xs)
  from Cons.prems obtain x' xs' where
    s: "ms' = x' # xs'"
    and x: "animateSingleParticle_js CONFIG cb st x index time = Inr x'"
    and u: "updatedFrom_js CONFIG cb st time (Suc index) xs xs'"
    by (cases ms') (auto simp add: updatedFrom_js_def)
  have ih: "\<And>b. \<exists>c. forEachParticle_js CONFIG cb st time (Suc index) xs b = (xs', Inr c)"
    using Cons.IH [OF u] .
  show ?case
  proof (cases "st = RETURNING")
    case True
    with x obtain ud orig where o: "js_userData x' = Some ud" "js_originalPos ud = Some orig"
      using animateSingleParticle_js_rest by blast
    from ih [of "if distanceTo (js_position x') orig > 0.1 then False else a"]
    obtain c where "forEachParticle_js CONFIG cb st time (Suc index) xs
                      (if distanceTo (js_position x') orig > 0.1 then False else a)
                    = (xs', Inr c)" by blast
    with True x o s show ?thesis by (simp add: Let_def)
  next
    case False
    from ih [of a] obtain c where
      "forEachParticle_js CONFIG cb st time (Suc index) xs a = (xs', Inr c)" by blast
    with False x s show ?thesis by (simp add: Let_def)
  qed
qed

section \<open>The claims\<close>

text \<open>
  C1. The state goes from RETURNING to IDLE exactly when, after the
  integration pass of a frame tick, every particle of both collections (the
  test particles included) is within distance 0.1 of its rest position; and
  whatever the host runs (either listener, a timeout or animation frame coming
  due, \<open>clearReturnTimer\<close>, \<open>startAnimationLoop\<close>), a state that was not IDLE
  becomes IDLE only through a run of \<open>animate\<close> that started in RETURNING and
  ended with every particle converged.
\<close>

theorem returning_to_idle_iff_converged:
  "(animationState s = RETURNING \<longrightarrow>
      (animationState (state_of (animate CONFIG cb time s)) = IDLE)
        = list_all converged (particles (state_of (animate CONFIG cb time s))
                              @ testParticles (state_of (animate CONFIG cb time s))))
   \<and> (animationState s \<noteq> IDLE
        \<and> animationState (state_of (step CONFIG cb time inp s)) = IDLE \<longrightarrow>
      animationState s = RETURNING \<and> runsAnimate inp s
        \<and> list_all converged (particles (state_of (step CONFIG cb time inp s))
                               @ testParticles (state_of (step CONFIG cb time inp s))))"
  using animate_idle_iff [of s CONFIG cb time] step_to_idle [of s CONFIG cb time inp]
  by auto

theorem returning_to_idle_iff_converged_witness:
  "animationState (example_scene RETURNING [resting_particle] [resting_particle]) = RETURNING
   \<and> animationState (example_scene RETURNING [resting_particle] [resting_particle]) \<noteq> IDLE
   \<and> animationState (state_of (step example_config all_callbacks 0 StartAnimationLoop
         (example_scene RETURNING [resting_particle] [resting_particle]))) = IDLE
   \<and> animationState (state_of (animate example_config all_callbacks 0
         (example_scene RETURNING [resting_particle] [resting_particle]))) = IDLE
   \<and> runsAnimate StartAnimationLoop (example_scene RETURNING [resting_particle] [resting_particle])
   \<and> list_all converged
        (particles (state_of (animate example_config all_callbacks 0
           (example_scene RETURNING [resting_particle] [resting_particle])))
         @ testParticles (state_of (animate example_config all_callbacks 0
           (example_scene RETURNING [resting_particle] [resting_particle]))))
   \<and> animationState (example_scene RETURNING [resting_particle] [far_particle]) = RETURNING
   \<and> animationState (state_of (animate example_config all_callbacks 0
         (example_scene RETURNING [resting_particle] [far_particle]))) = RETURNING
   \<and> \<not> list_all converged
        (particles (state_of (animate example_config all_callbacks 0
           (example_scene RETURNING [resting_particle] [far_particle])))
         @ testParticles (state_of (animate example_config all_callbacks 0
           (example_scene RETURNING [resting_particle] [far_particle]))))"
proof -
  let ?s = "example_scene RETURNING [resting_particle] [resting_particle]"
  let ?t = "example_scene RETURNING [resting_particle] [far_particle]"
  have run: "animationState (state_of (animate example_config all_callbacks 0 ?s)) = IDLE"
    by (simp add: example_defs run_defs)
  have h1: "animationState ?s = RETURNING" by (simp add: example_defs)
  have h2: "animationState ?s \<noteq> IDLE" by (simp add: example_defs)
  have h3: "animationState (state_of (step example_config all_callbacks 0 StartAnimationLoop ?s))
              = IDLE"
    using run by (simp add: step_def)
  have k1: "animationState ?t = RETURNING" by (simp add: example_defs)
  have k2: "animationState (state_of (animate example_config all_callbacks 0 ?t)) = RETURNING"
    unfolding far_particle_after_one_tick by (simp add: example_scene_def)
  show ?thesis
    using returning_to_idle_iff_converged
            [of ?s example_config all_callbacks 0 StartAnimationLoop]
          returning_to_idle_iff_converged
            [of ?t example_config all_callbacks 0 StartAnimationLoop] h1 h2 h3 run k1 k2
    by (simp add: step_def)
qed

text \<open>
  C2. A trigger outside the GUI that arrives in IDLE or RETURNING, in either
  event module: every pending timeout under the old handle is cancelled, the
  state is set to EXPLODING once (one camera notification), the explosion
  callback is invoked once, and one new timeout for \<open>holdDuration\<close> is
  scheduled and remembered in \<open>returnTimer\<close>. When that timeout fires, the
  return callback is invoked, the state becomes RETURNING and \<open>returnTimer\<close>
  is cleared.
\<close>

theorem trigger_starts_explosion:
  assumes "\<not> target_in_gui ev"
    and "animationState s = IDLE \<or> animationState s = RETURNING"
    and "getAnimationState_cb cb" and "setAnimationState_cb cb"
    and "onExplosion cb" and "onReturn cb"
    and "handlesFresh s"
  shows "(\<exists>s'. triggerExplosion CONFIG cb ev s = Returned s'
            \<and> explosionStarted CONFIG cb
                 (if etype ev = touchstart then [PreventDefault] else []) s s'
            \<and> (\<exists>s''. step CONFIG cb time (TimerFires (nextTimer s)) s' = Returned s''
                   \<and> animationState s'' = RETURNING \<and> returnTimer s'' = None
                   \<and> trace s'' = trace s' @ [OnReturn]
                          @ (if updateCameraFn cb then [UpdateCamera RETURNING] else [])
                   \<and> timers s'' = filter (\<lambda>(h, k, d). Some h \<noteq> returnTimer s) (timers s)))
       \<and> (\<exists>s'. triggerExplosion_events CONFIG cb ev s = Returned s'
            \<and> explosionStarted CONFIG cb [] s s'
            \<and> (\<exists>s''. step CONFIG cb time (TimerFires (nextTimer s)) s' = Returned s''
                   \<and> animationState s'' = RETURNING \<and> returnTimer s'' = None
                   \<and> trace s'' = trace s' @ [OnReturn]
                          @ (if updateCameraFn cb then [UpdateCamera RETURNING] else [])
                   \<and> timers s'' = filter (\<lambda>(h, k, d). Some h \<noteq> returnTimer s) (timers s)))"
proof (intro conjI)
  let ?s0 = "if etype ev = touchstart then invoke PreventDefault s else s"
  let ?pre = "if etype ev = touchstart then [PreventDefault] else []"
  let ?fin = "\<lambda>s0. (snd (setTimeout ReturnCallback (holdDuration CONFIG)
                (invoke OnExplosion
                   (setAnimationState cb EXPLODING (clearReturnTimer s0)))))
             \<lparr>returnTimer := Some (nextTimer s0)\<rparr>"
  have st0: "animationState ?s0 = IDLE \<or> animationState ?s0 = RETURNING"
    using assms(2) by (simp add: invoke_fields)
  have run: "triggerExplosion CONFIG cb ev s = Returned (?fin ?s0)"
    using assms(1) triggerFromState_explode [OF st0 assms(3) assms(4) assms(5)]
    by (simp add: triggerExplosion_def)
  have started: "explosionStarted CONFIG cb ?pre s (?fin ?s0)"
    by (rule explosionStarted_after) (simp_all add: invoke_fields)
  show "\<exists>s'. triggerExplosion CONFIG cb ev s = Returned s'
            \<and> explosionStarted CONFIG cb ?pre s s'
            \<and> (\<exists>s''. step CONFIG cb time (TimerFires (nextTimer s)) s' = Returned s''
                   \<and> animationState s'' = RETURNING \<and> returnTimer s'' = None
                   \<and> trace s'' = trace s' @ [OnReturn]
                          @ (if updateCameraFn cb then [UpdateCamera RETURNING] else [])
                   \<and> timers s'' = filter (\<lambda>(h, k, d). Some h \<noteq> returnTimer s) (timers s))"
    using run started
      timer_fires_after_explosion [OF assms(7) started assms(6) assms(4)]
    by blast
  have run2: "triggerExplosion_events CONFIG cb ev s = Returned (?fin s)"
    using assms(1) triggerFromState_explode [OF assms(2) assms(3) assms(4) assms(5)]
    by (simp add: triggerExplosion_events_def)
  have started2: "explosionStarted CONFIG cb [] s (?fin s)"
    by (rule explosionStarted_after) simp_all
  show "\<exists>s'. triggerExplosion_events CONFIG cb ev s = Returned s'
            \<and> explosionStarted CONFIG cb [] s s'
            \<and> (\<exists>s''. step CONFIG cb time (TimerFires (nextTimer s)) s' = Returned s''
                   \<and> animationState s'' = RETURNING \<and> returnTimer s'' = None
                   \<and> trace s'' = trace s' @ [OnReturn]
                          @ (if updateCameraFn cb then [UpdateCamera RETURNING] else [])
                   \<and> timers s'' = filter (\<lambda>(h, k, d). Some h \<noteq> returnTimer s) (timers s))"
    using run2 started2
      timer_fires_after_explosion [OF assms(7) started2 assms(6) assms(4)]
    by blast
qed

theorem trigger_starts_explosion_witness:
  "\<not> target_in_gui click
   \<and> animationState (example_scene IDLE [resting_particle] []) = IDLE
   \<and> getAnimationState_cb all_callbacks \<and> setAnimationState_cb all_callbacks
   \<and> onExplosion all_callbacks \<and> onReturn all_callbacks
   \<and> handlesFresh (example_scene IDLE [resting_particle] [])
   \<and> triggerExplosion example_config all_callbacks click (example_scene IDLE [resting_particle] [])
       = Returned ((example_scene EXPLODING [resting_particle] [])
           \<lparr>returnTimer := Some 0, timers := [(0, ReturnCallback, 15000)], nextTimer := 1,
            trace := [UpdateCamera EXPLODING, OnExplosion]\<rparr>)
   \<and> step example_config all_callbacks 0 (TimerFires 0)
         (state_of (triggerExplosion example_config all_callbacks click
                      (example_scene IDLE [resting_particle] [])))
       = Returned ((example_scene RETURNING [resting_particle] [])
           \<lparr>nextTimer := 1,
            trace := [UpdateCamera EXPLODING, OnExplosion, OnReturn, UpdateCamera RETURNING]\<rparr>)"
proof -
  let ?s = "example_scene IDLE [resting_particle] []"
  have h1: "\<not> target_in_gui click" by (simp add: example_defs)
  have h2: "animationState ?s = IDLE \<or> animationState ?s = RETURNING"
    by (simp add: example_defs)
  have h3: "getAnimationState_cb all_callbacks" by (simp add: example_defs)
  have h4: "setAnimationState_cb all_callbacks" by (simp add: example_defs)
  have h5: "onExplosion all_callbacks" by (simp add: example_defs)
  have h6: "onReturn all_callbacks" by (simp add: example_defs)
  have h7: "handlesFresh ?s" by (simp add: example_defs handlesFresh_def)
  have r: "triggerExplosion example_config all_callbacks click ?s
       = Returned ((example_scene EXPLODING [resting_particle] [])
           \<lparr>returnTimer := Some 0, timers := [(0, ReturnCallback, 15000)], nextTimer := 1,
            trace := [UpdateCamera EXPLODING, OnExplosion]\<rparr>)"
    by (simp add: example_defs triggerExplosion_def triggerFromState_def clearReturnTimer_def
          run_defs)
  have t: "step example_config all_callbacks 0 (TimerFires 0)
         (state_of (triggerExplosion example_config all_callbacks click ?s))
       = Returned ((example_scene RETURNING [resting_particle] [])
           \<lparr>nextTimer := 1,
            trace := [UpdateCamera EXPLODING, OnExplosion, OnReturn, UpdateCamera RETURNING]\<rparr>)"
    unfolding r
    by (simp add: example_defs step_def runScheduled_def returnTimerCallback_def run_defs)
  show ?thesis
    using trigger_starts_explosion [OF h1 h2 h3 h4 h5 h6 h7, of example_config 0] h1 h3 h4 h5 h6 h7 r t
    by (simp add: example_defs)
qed

text \<open>
  C3. A trigger outside the GUI that arrives in EXPLODING while
  \<open>reassembleOnClick\<close> is set, in either event module: the outstanding
  timeout is cancelled, the return callback is invoked, the state becomes
  RETURNING, and no timeout is scheduled (the pending timeouts are the old
  ones without the cancelled one, and the host's next handle is unchanged).
\<close>

theorem trigger_while_exploding_reassembles:
  assumes "\<not> target_in_gui ev"
    and "animationState s = EXPLODING" and "reassembleOnClick CONFIG"
    and "getAnimationState_cb cb" and "onReturn cb" and "setAnimationState_cb cb"
  shows "(\<exists>s'. triggerExplosion CONFIG cb ev s = Returned s'
            \<and> returnStarted cb (if etype ev = touchstart then [PreventDefault] else []) s s')
       \<and> (\<exists>s'. triggerExplosion_events CONFIG cb ev s = Returned s'
            \<and> returnStarted cb [] s s')"
proof (intro conjI)
  let ?s0 = "if etype ev = touchstart then invoke PreventDefault s else s"
  have st0: "animationState ?s0 = EXPLODING"
    using assms(2) by (simp add: invoke_fields)
  have "triggerExplosion CONFIG cb ev s =
          Returned (setAnimationState cb RETURNING (invoke OnReturn (clearReturnTimer ?s0)))"
    using assms(1) triggerFromState_reassemble [OF st0 assms(3) assms(4) assms(5) assms(6)]
    by (simp add: triggerExplosion_def)
  then show "\<exists>s'. triggerExplosion CONFIG cb ev s = Returned s'
            \<and> returnStarted cb (if etype ev = touchstart then [PreventDefault] else []) s s'"
    by (simp add: returnStarted_def setAnimationState_fields invoke_fields
          clearReturnTimer_fields)
  have "triggerExplosion_events CONFIG cb ev s =
          Returned (setAnimationState cb RETURNING (invoke OnReturn (clearReturnTimer s)))"
    using assms(1) triggerFromState_reassemble [OF assms(2) assms(3) assms(4) assms(5) assms(6)]
    by (simp add: triggerExplosion_events_def)
  then show "\<exists>s'. triggerExplosion_events CONFIG cb ev s = Returned s'
            \<and> returnStarted cb [] s s'"
    by (simp add: returnStarted_def setAnimationState_fields invoke_fields
          clearReturnTimer_fields)
qed

theorem trigger_while_exploding_reassembles_witness:
  "\<not> target_in_gui click \<and> animationState exploding_scene = EXPLODING
   \<and> reassembleOnClick example_config
   \<and> getAnimationState_cb all_callbacks \<and> onReturn all_callbacks
   \<and> setAnimationState_cb all_callbacks
   \<and> triggerExplosion example_config all_callbacks click exploding_scene
       = Returned (exploding_scene
           \<lparr>animationState := RETURNING, returnTimer := None, timers := [],
            trace := [UpdateCamera EXPLODING, OnExplosion, OnReturn, UpdateCamera RETURNING]\<rparr>)"
proof -
  have h1: "\<not> target_in_gui click" by (simp add: example_defs)
  have h2: "animationState exploding_scene = EXPLODING" by (simp add: exploding_scene_def)
  have h3: "reassembleOnClick example_config" by (simp add: example_defs)
  have h4: "getAnimationState_cb all_callbacks" by (simp add: example_defs)
  have h5: "onReturn all_callbacks" by (simp add: example_defs)
  have h6: "setAnimationState_cb all_callbacks" by (simp add: example_defs)
  have r: "triggerExplosion example_config all_callbacks click exploding_scene
       = Returned (exploding_scene
           \<lparr>animationState := RETURNING, returnTimer := None, timers := [],
            trace := [UpdateCamera EXPLODING, OnExplosion, OnReturn, UpdateCamera RETURNING]\<rparr>)"
    by (simp add: example_defs exploding_scene_def triggerExplosion_def triggerFromState_def
          clearReturnTimer_def run_defs)
  show ?thesis
    using trigger_while_exploding_reassembles [OF h1 h2 h3 h4 h5 h6] h1 h2 h3 h4 h5 h6 r
    by simp
qed

text \<open>
  C4. A trigger that arrives in EXPLODING while \<open>reassembleOnClick\<close> is not
  set changes nothing: the animation state, \<open>returnTimer\<close>, the pending
  timeouts and the particles stay as they are and no callback is invoked. The
  only trace left is the \<open>preventDefault\<close> that part_000 applies to a
  \<open>touchstart\<close> event before it reads the state.
\<close>

theorem trigger_while_exploding_ignored:
  assumes "animationState s = EXPLODING" and "\<not> reassembleOnClick CONFIG"
    and "getAnimationState_cb cb"
  shows "triggerExplosion CONFIG cb ev s =
           Returned (s\<lparr>trace := trace s @ (if \<not> target_in_gui ev \<and> etype ev = touchstart
                                            then [PreventDefault] else [])\<rparr>)
       \<and> triggerExplosion_events CONFIG cb ev s = Returned s"
proof -
  have "animationState (invoke PreventDefault s) = EXPLODING"
    using assms(1) by (simp add: invoke_fields)
  then show ?thesis
    using triggerFromState_ignored [OF assms(1) assms(2) assms(3)]
      triggerFromState_ignored [OF _ assms(2) assms(3), of "invoke PreventDefault s"]
    by (simp add: triggerExplosion_def triggerExplosion_events_def invoke_def)
qed

theorem trigger_while_exploding_ignored_witness:
  "animationState exploding_scene = EXPLODING
   \<and> \<not> reassembleOnClick (example_config\<lparr>reassembleOnClick := False\<rparr>)
   \<and> getAnimationState_cb all_callbacks
   \<and> triggerExplosion (example_config\<lparr>reassembleOnClick := False\<rparr>) all_callbacks
        \<lparr>target_in_gui = False, etype = touchstart\<rparr> exploding_scene
       = Returned (exploding_scene
           \<lparr>trace := [UpdateCamera EXPLODING, OnExplosion, PreventDefault]\<rparr>)
   \<and> triggerExplosion_events (example_config\<lparr>reassembleOnClick := False\<rparr>) all_callbacks
        \<lparr>target_in_gui = False, etype = touchstart\<rparr> exploding_scene
       = Returned exploding_scene"
proof -
  have h1: "animationState exploding_scene = EXPLODING" by (simp add: exploding_scene_def)
  have h2: "\<not> reassembleOnClick (example_config\<lparr>reassembleOnClick := False\<rparr>)" by simp
  have h3: "getAnimationState_cb all_callbacks" by (simp add: example_defs)
  show ?thesis
    using trigger_while_exploding_ignored
            [OF h1 h2 h3, of "\<lparr>target_in_gui = False, etype = touchstart\<rparr>"] h1 h3
    by (simp add: exploding_scene_def)
qed

text \<open>
  C5. In the IDLE state the integrator sets the vertical coordinate of every
  particle to its rest height plus
  \<open>idleFloatAmount * sin (time * idleFloatSpeed + index * 0.1)\<close> and sets the
  horizontal and depth coordinates to those of the rest position, whatever the
  position was before (so nothing accumulates from frame to frame).
\<close>

theorem idle_position_is_rest_plus_float:
  "animateSingleParticle CONFIG cb IDLE
       \<lparr>position = pos, rotation = rot, userData = Some ud\<rparr> index time =
   Inr \<lparr>position =
          \<lparr>vx = vx (originalPos ud),
           vy = vy (originalPos ud)
                  + idleFloatAmount CONFIG * sin (time * idleFloatSpeed CONFIG + real index * 0.1),
           vz = vz (originalPos ud)\<rparr>,
        rotation = \<lparr>vx = vx rot + vx (rotSpeed ud),
                    vy = vy rot + vy (rotSpeed ud),
                    vz = vz rot + vz (rotSpeed ud)\<rparr>,
        userData = Some ud\<rparr>"
  by (simp add: animateSingleParticle_def Let_def mult.commute)

text \<open>
  C6. In the EXPLODING state, for every particle: with parallax enabled the
  particle's parallax shift moves by the factor 0.08 toward mouse position
  times strength times the particle's sensitivity (on x and y), otherwise its
  x and y are multiplied by 0.95; the target is the explosion target plus the
  new shift on x and y and the explosion target's own z; and the position is
  advanced by \<open>current + (target - current) * animationSpeed\<close> on each axis
  (\<open>lerp\<close>). On the advanced position the code then superimposes the
  sinusoidal jitter of lines 172-175, which the statement shows as well.
\<close>

theorem exploding_parallax_and_lerp:
  "animateSingleParticle CONFIG cb EXPLODING
       \<lparr>position = pos, rotation = rot, userData = Some ud\<rparr> index time =
   (let mouse = (case getMouseFn cb of Some m \<Rightarrow> m | None \<Rightarrow> \<lparr>mx = 0, my = 0\<rparr>);
        old = individualParallaxShift ud;
        shift =
          (if explodedParallaxEnabled CONFIG then
             \<lparr>vx = vx old + (mx mouse * explodedParallaxStrength CONFIG
                               * baseParallaxSensitivity ud - vx old) * 0.08,
              vy = vy old + (my mouse * explodedParallaxStrength CONFIG
                               * baseParallaxSensitivity ud - vy old) * 0.08,
              vz = vz old\<rparr>
           else \<lparr>vx = vx old * 0.95, vy = vy old * 0.95, vz = vz old\<rparr>);
        target = \<lparr>vx = vx (explosionTarget ud) + vx shift,
                  vy = vy (explosionTarget ud) + vy shift,
                  vz = vz (explosionTarget ud)\<rparr>;
        advanced = lerp pos target (animationSpeed CONFIG)
    in Inr \<lparr>position =
              \<lparr>vx = vx advanced + sin (time * 0.001 + real index) * 0.01,
               vy = vy advanced
                      + sin (time * idleFloatSpeed CONFIG * 2 + real index * 0.1)
                          * idleFloatAmount CONFIG,
               vz = vz advanced + cos (time * 0.001 + real index) * 0.01\<rparr>,
            rotation = \<lparr>vx = vx rot + vx (rotSpeed ud) + 0.02,
                        vy = vy rot + vy (rotSpeed ud) + 0.01,
                        vz = vz rot + vz (rotSpeed ud)\<rparr>,
            userData = Some (ud\<lparr>individualParallaxShift := shift\<rparr>)\<rparr>)"
  by (cases "individualParallaxShift ud")
     (simp add: animateSingleParticle_def Let_def lerp_def)

text \<open>
  C7. The interleaved update-then-check loops of \<open>animateParticles\<close> compute
  the same arrays and the same aggregate (and fail in the same way) as the
  two-phase version that integrates every particle first and inspects the
  distances afterwards; and when \<open>animate\<close> returns, the render call is the
  last callback of the tick and is handed the arrays in which every particle
  has been integrated.
\<close>

theorem integration_precedes_inspection_and_render:
  "animateParticles CONFIG cb time s = animateParticles_twoPhase CONFIG cb time s
   \<and> (renderShowcaseFn cb \<and> animate CONFIG cb time s = Returned s' \<longrightarrow>
        trace s' \<noteq> []
        \<and> last (trace s') = RenderShowcase (particles s') (testParticles s')
        \<and> integrateAll CONFIG cb (animationState s) time 0 (particles s) = (particles s', None)
        \<and> integrateAll CONFIG cb (animationState s) time 0 (testParticles s)
             = (testParticles s', None))"
proof (rule conjI)
  show "animateParticles CONFIG cb time s = animateParticles_twoPhase CONFIG cb time s"
    by (rule animateParticles_two_phase)
next
  show "renderShowcaseFn cb \<and> animate CONFIG cb time s = Returned s' \<longrightarrow>
        trace s' \<noteq> []
        \<and> last (trace s') = RenderShowcase (particles s') (testParticles s')
        \<and> integrateAll CONFIG cb (animationState s) time 0 (particles s) = (particles s', None)
        \<and> integrateAll CONFIG cb (animationState s) time 0 (testParticles s)
             = (testParticles s', None)"
  proof (rule impI)
    assume a: "renderShowcaseFn cb \<and> animate CONFIG cb time s = Returned s'"
    obtain ps e1 where
      r1: "integrateAll CONFIG cb (animationState s) time 0 (particles s) = (ps, e1)"
      by (cases "integrateAll CONFIG cb (animationState s) time 0 (particles s)")
    obtain tps e2 where
      r2: "integrateAll CONFIG cb (animationState s) time 0 (testParticles s) = (tps, e2)"
      by (cases "integrateAll CONFIG cb (animationState s) time 0 (testParticles s)")
    from a r1 r2 show "trace s' \<noteq> []
        \<and> last (trace s') = RenderShowcase (particles s') (testParticles s')
        \<and> integrateAll CONFIG cb (animationState s) time 0 (particles s) = (particles s', None)
        \<and> integrateAll CONFIG cb (animationState s) time 0 (testParticles s)
             = (testParticles s', None)"
      unfolding animate_unfold animateParticles_twoPhase_def Let_def
      by (auto simp add: framePrelude_fields setAnimationState_fields invoke_fields
            split: option.splits if_splits)
  qed
qed

theorem integration_precedes_inspection_and_render_witness:
  "renderShowcaseFn all_callbacks
   \<and> animate example_config all_callbacks 0
         (example_scene RETURNING [resting_particle] [resting_particle])
       = Returned (state_of (animate example_config all_callbacks 0
           (example_scene RETURNING [resting_particle] [resting_particle])))
   \<and> last (trace (state_of (animate example_config all_callbacks 0
           (example_scene RETURNING [resting_particle] [resting_particle]))))
       = RenderShowcase
           [resting_particle\<lparr>rotation := \<lparr>vx = 0.01, vy = 0, vz = 0\<rparr>\<rparr>]
           [resting_particle\<lparr>rotation := \<lparr>vx = 0.01, vy = 0, vz = 0\<rparr>\<rparr>]"
proof -
  let ?s = "example_scene RETURNING [resting_particle] [resting_particle]"
  have h1: "renderShowcaseFn all_callbacks" by (simp add: example_defs)
  have h2: "animate example_config all_callbacks 0 ?s
              = Returned (state_of (animate example_config all_callbacks 0 ?s))"
    by (simp add: example_defs run_defs)
  have p: "particles (state_of (animate example_config all_callbacks 0 ?s))
             = [resting_particle\<lparr>rotation := \<lparr>vx = 0.01, vy = 0, vz = 0\<rparr>\<rparr>]"
      "testParticles (state_of (animate example_config all_callbacks 0 ?s))
             = [resting_particle\<lparr>rotation := \<lparr>vx = 0.01, vy = 0, vz = 0\<rparr>\<rparr>]"
    by (simp_all add: example_defs run_defs)
  show ?thesis
    using integration_precedes_inspection_and_render
            [of example_config all_callbacks 0 ?s
                "state_of (animate example_config all_callbacks 0 ?s)"] h1 h2 p
    by simp
qed

text \<open>
  C8, as the code has it. A fault in one particle's update is not isolated:
  it ends \<open>animateParticles\<close>, and with it the frame tick, with the exception.
  The particles before the faulting record in iteration order have been
  updated; every particle after it in that array (and the whole test-particle
  array when the fault is in the main array) is left as it was. This holds
  for every way the update can fault, on records with optional fields
  (\<open>animateParticles_js\<close>), where the faulting record stays as the update left
  it when it threw; and for a record without any \<open>userData\<close> field the frame
  tick \<open>animate\<close> ends with the \<open>TypeError\<close> and the animation state
  unchanged.
\<close>

theorem fault_aborts_frame:
  "(updatedFrom_js CONFIG cb st time 0 qs1 qs1'
      \<and> animateSingleParticle_js CONFIG cb st q (length qs1) time = Inl (e, q') \<longrightarrow>
        animateParticles_js CONFIG cb st time (qs1 @ q # qs2) tqs
          = ((qs1' @ q' # qs2, tqs), Inl e))
   \<and> (updatedFrom_js CONFIG cb st time 0 ms ms'
      \<and> updatedFrom_js CONFIG cb st time 0 qs1 qs1'
      \<and> animateSingleParticle_js CONFIG cb st q (length qs1) time = Inl (e, q') \<longrightarrow>
        animateParticles_js CONFIG cb st time ms (qs1 @ q # qs2)
          = ((ms', qs1' @ q' # qs2), Inl e))
   \<and> (userData p = None \<and> list_all wellFormed ps1 \<and> particles s = ps1 @ p # ps2 \<longrightarrow>
        (\<exists>s' ps1'. animate CONFIG cb time s = Thrown TypeError s'
           \<and> particles s' = ps1' @ p # ps2
           \<and> updatedFrom CONFIG cb (animationState s) time 0 ps1 ps1'
           \<and> testParticles s' = testParticles s
           \<and> animationState s' = animationState s))
   \<and> (userData p = None \<and> list_all wellFormed ps1
      \<and> list_all wellFormed (particles s) \<and> testParticles s = ps1 @ p # ps2 \<longrightarrow>
        (\<exists>s' ps1'. animate CONFIG cb time s = Thrown TypeError s'
           \<and> updatedFrom CONFIG cb (animationState s) time 0 (particles s) (particles s')
           \<and> testParticles s' = ps1' @ p # ps2
           \<and> updatedFrom CONFIG cb (animationState s) time 0 ps1 ps1'
           \<and> animationState s' = animationState s))"
proof (intro conjI impI)
  assume a: "updatedFrom_js CONFIG cb st time 0 qs1 qs1'
      \<and> animateSingleParticle_js CONFIG cb st q (length qs1) time = Inl (e, q')"
  then have "forEachParticle_js CONFIG cb st time 0 (qs1 @ q # qs2) True
               = (qs1' @ q' # qs2, Inl e)"
    using forEachParticle_js_fault [of CONFIG cb st time 0 qs1 qs1' q e q' qs2 True] by simp
  then show "animateParticles_js CONFIG cb st time (qs1 @ q # qs2) tqs
          = ((qs1' @ q' # qs2, tqs), Inl e)"
    by (simp add: animateParticles_js_def)
next
  assume a: "updatedFrom_js CONFIG cb st time 0 ms ms'
      \<and> updatedFrom_js CONFIG cb st time 0 qs1 qs1'
      \<and> animateSingleParticle_js CONFIG cb st q (length qs1) time = Inl (e, q')"
  then obtain b where m: "forEachParticle_js CONFIG cb st time 0 ms True = (ms', Inr b)"
    using forEachParticle_js_done [of CONFIG cb st time 0 ms ms' True] by blast
  from a have "forEachParticle_js CONFIG cb st time 0 (qs1 @ q # qs2) b
               = (qs1' @ q' # qs2, Inl e)"
    using forEachParticle_js_fault [of CONFIG cb st time 0 qs1 qs1' q e q' qs2 b] by simp
  with m show "animateParticles_js CONFIG cb st time ms (qs1 @ q # qs2)
          = ((ms', qs1' @ q' # qs2), Inl e)"
    by (simp add: animateParticles_js_def)
next
  assume a: "userData p = None \<and> list_all wellFormed ps1 \<and> particles s = ps1 @ p # ps2"
  then have ps: "particles s = ps1 @ p # ps2" by simp
  from a integrateAll_fault [of ps1 p CONFIG cb "animationState s" time 0 ps2]
  obtain ps1' where
    r: "integrateAll CONFIG cb (animationState s) time 0 (ps1 @ p # ps2)
          = (ps1' @ p # ps2, Some TypeError)"
    and u: "updatedFrom CONFIG cb (animationState s) time 0 ps1 ps1'"
    by blast
  have "animate CONFIG cb time s
          = Thrown TypeError ((framePrelude CONFIG cb s)\<lparr>particles := ps1' @ p # ps2\<rparr>)"
    unfolding animate_unfold animateParticles_twoPhase_def Let_def
    using r ps by (simp add: framePrelude_fields)
  with u show "\<exists>s' ps1'. animate CONFIG cb time s = Thrown TypeError s'
               \<and> particles s' = ps1' @ p # ps2
               \<and> updatedFrom CONFIG cb (animationState s) time 0 ps1 ps1'
               \<and> testParticles s' = testParticles s
               \<and> animationState s' = animationState s"
    by (simp add: framePrelude_fields)
next
  assume a: "userData p = None \<and> list_all wellFormed ps1
      \<and> list_all wellFormed (particles s) \<and> testParticles s = ps1 @ p # ps2"
  from a integrateAll_fault [of ps1 p CONFIG cb "animationState s" time 0 ps2]
  obtain ps1' where
    r: "integrateAll CONFIG cb (animationState s) time 0 (ps1 @ p # ps2)
          = (ps1' @ p # ps2, Some TypeError)"
    and u: "updatedFrom CONFIG cb (animationState s) time 0 ps1 ps1'"
    by blast
  from a integrateAll_wellFormed [of "particles s" CONFIG cb "animationState s" time 0]
  have w: "snd (integrateAll CONFIG cb (animationState s) time 0 (particles s)) = None"
    "updatedFrom CONFIG cb (animationState s) time 0 (particles s)
       (fst (integrateAll CONFIG cb (animationState s) time 0 (particles s)))"
    by simp_all
  have "animate CONFIG cb time s
          = Thrown TypeError ((framePrelude CONFIG cb s)
              \<lparr>particles := fst (integrateAll CONFIG cb (animationState s) time 0 (particles s)),
               testParticles := ps1' @ p # ps2\<rparr>)"
    unfolding animate_unfold animateParticles_twoPhase_def Let_def
    using r a w(1) by (simp add: framePrelude_fields)
  with u w(2) show "\<exists>s' ps1'. animate CONFIG cb time s = Thrown TypeError s'
               \<and> updatedFrom CONFIG cb (animationState s) time 0 (particles s) (particles s')
               \<and> testParticles s' = ps1' @ p # ps2
               \<and> updatedFrom CONFIG cb (animationState s) time 0 ps1 ps1'
               \<and> animationState s' = animationState s"
    by (simp add: framePrelude_fields)
qed

theorem fault_aborts_frame_witness:
  "updatedFrom_js example_config all_callbacks RETURNING 0 0
       [js_of resting_particle]
       [js_of (resting_particle\<lparr>rotation := \<lparr>vx = 0.01, vy = 0, vz = 0\<rparr>\<rparr>)]
   \<and> animateSingleParticle_js example_config all_callbacks RETURNING shiftless_particle
         (length [js_of resting_particle]) 0
       = Inl (TypeError,
              shiftless_particle\<lparr>js_rotation := \<lparr>vx = 0.01, vy = 0, vz = 0\<rparr>,
                                 js_position := \<lparr>vx = 0.88, vy = 0, vz = 0\<rparr>\<rparr>)
   \<and> animateParticles_js example_config all_callbacks RETURNING 0
         ([js_of resting_particle] @ shiftless_particle # [js_of far_particle])
         [js_of far_particle]
       = (([js_of (resting_particle\<lparr>rotation := \<lparr>vx = 0.01, vy = 0, vz = 0\<rparr>\<rparr>)]
             @ shiftless_particle\<lparr>js_rotation := \<lparr>vx = 0.01, vy = 0, vz = 0\<rparr>,
                                  js_position := \<lparr>vx = 0.88, vy = 0, vz = 0\<rparr>\<rparr>
             # [js_of far_particle],
           [js_of far_particle]), Inl TypeError)
   \<and> animateParticles_js example_config all_callbacks RETURNING 0
         [js_of resting_particle]
         ([js_of resting_particle] @ shiftless_particle # [js_of far_particle])
       = (([js_of (resting_particle\<lparr>rotation := \<lparr>vx = 0.01, vy = 0, vz = 0\<rparr>\<rparr>)],
           [js_of (resting_particle\<lparr>rotation := \<lparr>vx = 0.01, vy = 0, vz = 0\<rparr>\<rparr>)]
             @ shiftless_particle\<lparr>js_rotation := \<lparr>vx = 0.01, vy = 0, vz = 0\<rparr>,
                                  js_position := \<lparr>vx = 0.88, vy = 0, vz = 0\<rparr>\<rparr>
             # [js_of far_particle]), Inl TypeError)
   \<and> userData malformed_particle = None
   \<and> list_all wellFormed [resting_particle]
   \<and> particles (example_scene IDLE [resting_particle, malformed_particle, resting_particle] [])
       = [resting_particle] @ malformed_particle # [resting_particle]
   \<and> animate example_config wired_only 0
         (example_scene IDLE [resting_particle, malformed_particle, resting_particle] [])
       = Thrown TypeError
           ((example_scene IDLE
               [resting_particle\<lparr>rotation := \<lparr>vx = 0.01, vy = 0, vz = 0\<rparr>\<rparr>,
                malformed_particle, resting_particle] [])
            \<lparr>frameRequests := [AnimateCallback]\<rparr>)
   \<and> list_all wellFormed
         (particles (example_scene IDLE [resting_particle]
                       [resting_particle, malformed_particle, resting_particle]))
   \<and> testParticles (example_scene IDLE [resting_particle]
                       [resting_particle, malformed_particle, resting_particle])
       = [resting_particle] @ malformed_particle # [resting_particle]
   \<and> animate example_config wired_only 0
         (example_scene IDLE [resting_particle]
            [resting_particle, malformed_particle, resting_particle])
       = Thrown TypeError
           ((example_scene IDLE
               [resting_particle\<lparr>rotation := \<lparr>vx = 0.01, vy = 0, vz = 0\<rparr>\<rparr>]
               [resting_particle\<lparr>rotation := \<lparr>vx = 0.01, vy = 0, vz = 0\<rparr>\<rparr>,
                malformed_particle, resting_particle])
            \<lparr>frameRequests := [AnimateCallback]\<rparr>)"
proof -
  let ?s = "example_scene IDLE [resting_particle, malformed_particle, resting_particle] []"
  let ?t = "example_scene IDLE [resting_particle]
              [resting_particle, malformed_particle, resting_particle]"
  let ?r = "js_of resting_particle"
  let ?r' = "js_of (resting_particle\<lparr>rotation := \<lparr>vx = 0.01, vy = 0, vz = 0\<rparr>\<rparr>)"
  let ?q' = "shiftless_particle\<lparr>js_rotation := \<lparr>vx = 0.01, vy = 0, vz = 0\<rparr>,
                                js_position := \<lparr>vx = 0.88, vy = 0, vz = 0\<rparr>\<rparr>"
  have g1: "updatedFrom_js example_config all_callbacks RETURNING 0 0 [?r] [?r']"
    by (simp add: updatedFrom_js_def animateSingleParticle_js_def js_of_def
          example_defs lerp_def multiplyScalar_def Let_def)
  have g2: "animateSingleParticle_js example_config all_callbacks RETURNING shiftless_particle
              (length [?r]) 0 = Inl (TypeError, ?q')"
    by (simp add: animateSingleParticle_js_def shiftless_particle_def example_defs lerp_def
          Let_def)
  have h1: "userData malformed_particle = None" by (simp add: example_defs)
  have h2: "list_all wellFormed [resting_particle]" by (simp add: example_defs wellFormed_def)
  have h3: "particles ?s = [resting_particle] @ malformed_particle # [resting_particle]"
    by (simp add: example_defs)
  have h4: "list_all wellFormed (particles ?t)" by (simp add: example_defs wellFormed_def)
  have h5: "testParticles ?t = [resting_particle] @ malformed_particle # [resting_particle]"
    by (simp add: example_defs)
  have r: "animate example_config wired_only 0 ?s
       = Thrown TypeError
           ((example_scene IDLE
               [resting_particle\<lparr>rotation := \<lparr>vx = 0.01, vy = 0, vz = 0\<rparr>\<rparr>,
                malformed_particle, resting_particle] [])
            \<lparr>frameRequests := [AnimateCallback]\<rparr>)"
    by (simp add: example_defs run_defs)
  have r': "animate example_config wired_only 0 ?t
       = Thrown TypeError
           ((example_scene IDLE
               [resting_particle\<lparr>rotation := \<lparr>vx = 0.01, vy = 0, vz = 0\<rparr>\<rparr>]
               [resting_particle\<lparr>rotation := \<lparr>vx = 0.01, vy = 0, vz = 0\<rparr>\<rparr>,
                malformed_particle, resting_particle])
            \<lparr>frameRequests := [AnimateCallback]\<rparr>)"
    by (simp add: example_defs run_defs)
  note f = fault_aborts_frame
             [of example_config all_callbacks RETURNING 0 "[?r]" "[?r']" shiftless_particle
                 TypeError ?q' "[js_of far_particle]" "[js_of far_particle]" "[?r]" "[?r']"]
  have b1: "animateParticles_js example_config all_callbacks RETURNING 0
              ([?r] @ shiftless_particle # [js_of far_particle]) [js_of far_particle]
            = (([?r'] @ ?q' # [js_of far_particle], [js_of far_particle]), Inl TypeError)"
    using f g1 g2 by blast
  have b2: "animateParticles_js example_config all_callbacks RETURNING 0 [?r]
              ([?r] @ shiftless_particle # [js_of far_particle])
            = (([?r'], [?r'] @ ?q' # [js_of far_particle]), Inl TypeError)"
    using f g1 g2 by blast
  show ?thesis
    using fault_aborts_frame
            [of example_config wired_only _ 0 _ _ _ _ _ _ _ _ _
                malformed_particle "[resting_particle]" ?s "[resting_particle]"]
      fault_aborts_frame
            [of example_config wired_only _ 0 _ _ _ _ _ _ _ _ _
                malformed_particle "[resting_particle]" ?t "[resting_particle]"]
      g1 g2 b1 b2 h1 h2 h3 h4 h5 r r'
    by simp
qed

text \<open>
  C8, as stated, fails: with a malformed record first in the main array, the
  tick throws and the well-formed particles after it (and the test particle)
  are left as they were, although their update would have changed them. The
  same on records with optional fields: a record that lacks only
  \<open>individualParallaxShift\<close> is partly updated (rotation and position) before
  the \<open>TypeError\<close>, and the particle after it is not updated.
\<close>

theorem fault_isolated_counterexample:
  "animate example_config all_callbacks 0
       (example_scene IDLE [malformed_particle, resting_particle] [resting_particle])
     = Thrown TypeError
         ((example_scene IDLE [malformed_particle, resting_particle] [resting_particle])
            \<lparr>frameRequests := [AnimateCallback],
             trace := [UpdateFps False, UpdateParallaxTargets IDLE, ApplyParallaxToGroup,
                       AnimateShowcaseBox \<lparr>mx = 0, my = 0\<rparr>]\<rparr>)
   \<and> animateSingleParticle example_config all_callbacks IDLE resting_particle 1 0
         \<noteq> Inr resting_particle
   \<and> animateSingleParticle example_config all_callbacks IDLE resting_particle 0 0
         \<noteq> Inr resting_particle
   \<and> animateParticles_js example_config all_callbacks RETURNING 0
         [shiftless_particle, js_of far_particle] []
       = (([shiftless_particle\<lparr>js_rotation := \<lparr>vx = 0.01, vy = 0, vz = 0\<rparr>,
                                 js_position := \<lparr>vx = 0.88, vy = 0, vz = 0\<rparr>\<rparr>,
            js_of far_particle], []), Inl TypeError)
   \<and> animateSingleParticle_js example_config all_callbacks RETURNING (js_of far_particle) 1 0
         \<noteq> Inr (js_of far_particle)"
  by (simp add: example_defs run_defs shiftless_particle_def js_of_def
        animateParticles_js_def animateSingleParticle_js_def)

text \<open>
  C9, as the code has it. The animation module guards its hooks: setting the
  state without a camera hook only writes the state, and a frame tick over
  well-formed particles returns whatever hooks are missing. The event module
  calls its callbacks unguarded: a trigger from IDLE or RETURNING without an
  explosion callback throws after the state has been set to EXPLODING and
  before any timeout is scheduled, and a reassembling trigger without a return
  callback throws after the timeout has been cancelled.
\<close>

theorem unconfigured_hooks:
  "(\<not> updateCameraFn cb \<longrightarrow> setAnimationState cb newState s = s\<lparr>animationState := newState\<rparr>)
   \<and> (list_all wellFormed (particles s) \<and> list_all wellFormed (testParticles s) \<longrightarrow>
        (\<exists>s'. animate CONFIG cb time s = Returned s'))
   \<and> (\<not> target_in_gui ev \<and> getAnimationState_cb cb \<and> setAnimationState_cb cb
        \<and> (animationState s = IDLE \<or> animationState s = RETURNING) \<and> \<not> onExplosion cb \<longrightarrow>
        (\<exists>s'. triggerExplosion CONFIG cb ev s = Thrown TypeError s'
             \<and> triggerExplosion_events CONFIG cb ev s
                 = Thrown TypeError (setAnimationState cb EXPLODING (clearReturnTimer s))
             \<and> animationState s' = EXPLODING \<and> returnTimer s' = None
             \<and> nextTimer s' = nextTimer s))
   \<and> (\<not> target_in_gui ev \<and> getAnimationState_cb cb
        \<and> animationState s = EXPLODING \<and> reassembleOnClick CONFIG \<and> \<not> onReturn cb \<longrightarrow>
        (\<exists>s'. triggerExplosion CONFIG cb ev s = Thrown TypeError s'
             \<and> triggerExplosion_events CONFIG cb ev s = Thrown TypeError (clearReturnTimer s)
             \<and> animationState s' = EXPLODING))"
proof (intro conjI impI)
  assume "\<not> updateCameraFn cb"
  then show "setAnimationState cb newState s = s\<lparr>animationState := newState\<rparr>"
    by (simp add: setAnimationState_def)
next
  assume "list_all wellFormed (particles s) \<and> list_all wellFormed (testParticles s)"
  then show "\<exists>s'. animate CONFIG cb time s = Returned s'"
    using animate_returns_when_wellFormed by blast
next
  assume "\<not> target_in_gui ev \<and> getAnimationState_cb cb \<and> setAnimationState_cb cb
        \<and> (animationState s = IDLE \<or> animationState s = RETURNING) \<and> \<not> onExplosion cb"
  then show "\<exists>s'. triggerExplosion CONFIG cb ev s = Thrown TypeError s'
             \<and> triggerExplosion_events CONFIG cb ev s
                 = Thrown TypeError (setAnimationState cb EXPLODING (clearReturnTimer s))
             \<and> animationState s' = EXPLODING \<and> returnTimer s' = None
             \<and> nextTimer s' = nextTimer s"
    unfolding triggerExplosion_def triggerExplosion_events_def triggerFromState_def Let_def
    by (auto simp add: invoke_fields setAnimationState_fields clearReturnTimer_fields)
next
  assume "\<not> target_in_gui ev \<and> getAnimationState_cb cb
        \<and> animationState s = EXPLODING \<and> reassembleOnClick CONFIG \<and> \<not> onReturn cb"
  then show "\<exists>s'. triggerExplosion CONFIG cb ev s = Thrown TypeError s'
             \<and> triggerExplosion_events CONFIG cb ev s = Thrown TypeError (clearReturnTimer s)
             \<and> animationState s' = EXPLODING"
    unfolding triggerExplosion_def triggerExplosion_events_def triggerFromState_def Let_def
    by (auto simp add: invoke_fields setAnimationState_fields clearReturnTimer_fields)
qed

theorem unconfigured_hooks_witness:
  "\<not> updateCameraFn wired_only
   \<and> setAnimationState wired_only RETURNING exploding_scene
       = exploding_scene\<lparr>animationState := RETURNING\<rparr>
   \<and> list_all wellFormed (particles exploding_scene)
   \<and> list_all wellFormed (testParticles exploding_scene)
   \<and> animate example_config wired_only 0 exploding_scene
       = Returned (state_of (animate example_config wired_only 0 exploding_scene))
   \<and> \<not> target_in_gui click
   \<and> getAnimationState_cb wired_only \<and> setAnimationState_cb wired_only
   \<and> animationState (example_scene IDLE [resting_particle] []) = IDLE
   \<and> \<not> onExplosion wired_only
   \<and> triggerExplosion example_config wired_only click (example_scene IDLE [resting_particle] [])
       = Thrown TypeError (example_scene EXPLODING [resting_particle] [])
   \<and> animationState exploding_scene = EXPLODING
   \<and> reassembleOnClick example_config
   \<and> \<not> onReturn wired_only
   \<and> triggerExplosion example_config wired_only click exploding_scene
       = Thrown TypeError (exploding_scene\<lparr>returnTimer := None, timers := []\<rparr>)"
proof -
  let ?idle = "example_scene IDLE [resting_particle] []"
  have h: "\<not> updateCameraFn wired_only" "\<not> target_in_gui click"
    "getAnimationState_cb wired_only" "setAnimationState_cb wired_only"
    "\<not> onExplosion wired_only" "\<not> onReturn wired_only"
    "reassembleOnClick example_config"
    by (simp_all add: example_defs)
  have w: "list_all wellFormed (particles exploding_scene)"
    "list_all wellFormed (testParticles exploding_scene)"
    by (simp_all add: exploding_scene_def example_defs wellFormed_def)
  have st: "animationState ?idle = IDLE" "animationState exploding_scene = EXPLODING"
    by (simp_all add: exploding_scene_def example_defs)
  have r1: "triggerExplosion example_config wired_only click ?idle
       = Thrown TypeError (example_scene EXPLODING [resting_particle] [])"
    by (simp add: example_defs triggerExplosion_def triggerFromState_def
          clearReturnTimer_def run_defs)
  have r2: "triggerExplosion example_config wired_only click exploding_scene
       = Thrown TypeError (exploding_scene\<lparr>returnTimer := None, timers := []\<rparr>)"
    by (simp add: example_defs exploding_scene_def triggerExplosion_def
          triggerFromState_def clearReturnTimer_def run_defs)
  show ?thesis
    using unconfigured_hooks [of wired_only RETURNING exploding_scene example_config 0 click]
      unconfigured_hooks [of wired_only RETURNING ?idle example_config 0 click]
      h w st r1 r2
    by auto
qed

text \<open>
  C9, as stated, fails: a trigger with the explosion callback (or, when
  reassembling, the return callback) not configured ends with a \<open>TypeError\<close>.
\<close>

theorem unconfigured_callback_counterexample:
  "triggerExplosion example_config (all_callbacks\<lparr>onExplosion := False\<rparr>) click
       (example_scene IDLE [resting_particle] [])
     = Thrown TypeError
         ((example_scene EXPLODING [resting_particle] [])\<lparr>trace := [UpdateCamera EXPLODING]\<rparr>)
   \<and> triggerExplosion example_config (all_callbacks\<lparr>onReturn := False\<rparr>) click
       exploding_scene
     = Thrown TypeError (exploding_scene\<lparr>returnTimer := None, timers := []\<rparr>)"
  by (simp add: example_defs exploding_scene_def triggerExplosion_def triggerFromState_def
        clearReturnTimer_def run_defs)

text \<open>
  C10. With both particle arrays empty the aggregate of \<open>animateParticles\<close> is
  true, so one frame tick in RETURNING ends in IDLE, and both arrays are still
  empty.
\<close>

theorem empty_collections_return_to_idle:
  assumes "animationState s = RETURNING" and "particles s = []" and "testParticles s = []"
  shows "\<exists>s'. animate CONFIG cb time s = Returned s'
           \<and> animationState s' = IDLE
           \<and> particles s' = [] \<and> testParticles s' = []
           \<and> animateParticles CONFIG cb time s = (s, Inr True)"
  using assms unfolding animate_unfold animateParticles_twoPhase_def Let_def
    animateParticles_two_phase
  by (simp add: framePrelude_fields setAnimationState_fields invoke_fields)

theorem empty_collections_return_to_idle_witness:
  "animationState (example_scene RETURNING [] []) = RETURNING
   \<and> particles (example_scene RETURNING [] []) = []
   \<and> testParticles (example_scene RETURNING [] []) = []
   \<and> animate example_config all_callbacks 0 (example_scene RETURNING [] [])
       = Returned ((example_scene IDLE [] [])
           \<lparr>frameRequests := [AnimateCallback],
            trace := [UpdateFps False, UpdateParallaxTargets RETURNING, ApplyParallaxToGroup,
                      AnimateShowcaseBox \<lparr>mx = 0, my = 0\<rparr>, UpdateCamera IDLE,
                      RenderShowcase [] []]\<rparr>)"
proof -
  let ?s = "example_scene RETURNING [] []"
  have h1: "animationState ?s = RETURNING" by (simp add: example_defs)
  have h2: "particles ?s = []" by (simp add: example_defs)
  have h3: "testParticles ?s = []" by (simp add: example_defs)
  have r: "animate example_config all_callbacks 0 ?s
       = Returned ((example_scene IDLE [] [])
           \<lparr>frameRequests := [AnimateCallback],
            trace := [UpdateFps False, UpdateParallaxTargets RETURNING, ApplyParallaxToGroup,
                      AnimateShowcaseBox \<lparr>mx = 0, my = 0\<rparr>, UpdateCamera IDLE,
                      RenderShowcase [] []]\<rparr>)"
    by (simp add: example_defs run_defs)
  show ?thesis
    using empty_collections_return_to_idle [OF h1 h2 h3, of example_config all_callbacks 0]
      h1 h2 h3 r
    by simp
qed

end
